theory Spec2Isabelle
  imports Complex_Main
begin

section \<open>Checkout completion: saleor/checkout/complete_checkout.py\<close>

text \<open>
  A shallow embedding of the checkout-to-order orchestration. Python functions whose
  names start with an underscore keep their name with a trailing prime instead
  (\<open>_create_order\<close> is \<open>create_order'\<close>). Exceptions are values of \<open>exn\<close>; a function that
  touches the database takes the database and returns it (\<open>'a action\<close>). Decimal amounts
  are rationals; strings are HOL strings; fields the modelled behaviour never reads
  (addresses, metadata, weights, search vectors, redirect URLs) are left out of the
  records.
\<close>

subsection \<open>Exceptions\<close>

text \<open>
  A \<open>ValidationError\<close> carries the code it was raised with; \<open>ValidationErrorNoCode\<close> is a
  ValidationError raised without one: a dictionary from a field name to the exception
  caught, whose code is None.
\<close>

datatype CheckoutErrorCode =
    CHANNEL_INACTIVE
  | CHECKOUT_NOT_FULLY_PAID
  | GIFT_CARD_NOT_APPLICABLE
  | INACTIVE_PAYMENT
  | INSUFFICIENT_STOCK
  | INVALID
  | PAYMENT_ERROR
  | TAX_ERROR
  | VOUCHER_NOT_APPLICABLE
  | OTHER_ERROR_CODE string

datatype exn =
    InsufficientStock
  | NotApplicable
  | GiftCardNotApplicable
  | TaxError
  | PaymentError
  | ValueError
  | IndexError
  | ValidationError CheckoutErrorCode
  | ValidationErrorNoCode

subsection \<open>Money (the prices library)\<close>

record Money =
  amount :: rat
  currency :: string

record TaxedMoney =
  net :: Money
  gross :: Money

text \<open>
  \<open>Money.__sub__\<close> and \<open>Money.__add__\<close> raise ValueError when the currencies differ;
  \<open>TaxedMoney\<close> works on net and gross separately. \<open>bool(money)\<close> is \<open>bool(money.amount)\<close>.
\<close>

definition money_sub :: "Money \<Rightarrow> Money \<Rightarrow> exn + Money" where
  "money_sub a b =
     (if currency a = currency b
      then Inr \<lparr>amount = amount a - amount b, currency = currency a\<rparr>
      else Inl ValueError)"

definition money_add :: "Money \<Rightarrow> Money \<Rightarrow> exn + Money" where
  "money_add a b =
     (if currency a = currency b
      then Inr \<lparr>amount = amount a + amount b, currency = currency a\<rparr>
      else Inl ValueError)"

definition taxed_money_sub :: "TaxedMoney \<Rightarrow> TaxedMoney \<Rightarrow> exn + TaxedMoney" where
  "taxed_money_sub a b =
     (case money_sub (net a) (net b) of
        Inl e \<Rightarrow> Inl e
      | Inr n \<Rightarrow>
          (case money_sub (gross a) (gross b) of
             Inl e \<Rightarrow> Inl e
           | Inr g \<Rightarrow> Inr \<lparr>net = n, gross = g\<rparr>))"

definition taxed_money_add :: "TaxedMoney \<Rightarrow> TaxedMoney \<Rightarrow> exn + TaxedMoney" where
  "taxed_money_add a b =
     (case money_add (net a) (net b) of
        Inl e \<Rightarrow> Inl e
      | Inr n \<Rightarrow>
          (case money_add (gross a) (gross b) of
             Inl e \<Rightarrow> Inl e
           | Inr g \<Rightarrow> Inr \<lparr>net = n, gross = g\<rparr>))"

definition taxed_money_sub_money :: "TaxedMoney \<Rightarrow> Money \<Rightarrow> exn + TaxedMoney" where
  "taxed_money_sub_money a m = taxed_money_sub a \<lparr>net = m, gross = m\<rparr>"

definition zero_taxed_money :: "string \<Rightarrow> TaxedMoney" where
  "zero_taxed_money cur =
     \<lparr>net = \<lparr>amount = 0, currency = cur\<rparr>, gross = \<lparr>amount = 0, currency = cur\<rparr>\<rparr>"

fun sum_taxed :: "TaxedMoney \<Rightarrow> TaxedMoney list \<Rightarrow> exn + TaxedMoney" where
  "sum_taxed start [] = Inr start"
| "sum_taxed start (x # xs) =
     (case taxed_money_add start x of Inl e \<Rightarrow> Inl e | Inr acc \<Rightarrow> sum_taxed acc xs)"

text \<open>Python truthiness of an optional string: neither None nor empty.\<close>

definition truthy_str :: "string option \<Rightarrow> bool" where
  "truthy_str x = (case x of None \<Rightarrow> False | Some s \<Rightarrow> s \<noteq> [])"

subsection \<open>Channels, vouchers, checkouts and their lines\<close>

datatype MarkAsPaidStrategy = PAYMENT_FLOW | TRANSACTION_FLOW

datatype CheckoutAuthorizeStatus = NONE | PARTIAL | FULL

datatype OrderStatus = UNFULFILLED | UNCONFIRMED

datatype OrderOrigin = CHECKOUT

datatype DiscountType = VOUCHER | MANUAL | PROMOTION

datatype DiscountValueType = FIXED | PERCENTAGE

datatype TransactionKind = AUTH | CAPTURE | REFUND | REFUND_ONGOING | VOID

record Channel =
  slug :: string
  is_active :: bool
  automatically_confirm_all_new_orders :: bool
  allow_unpaid_orders :: bool
  order_mark_as_paid_strategy :: MarkAsPaidStrategy

text \<open>\<open>Voucher.used\<close> is a column the ledger updates in place; it lives in the database.\<close>

record Voucher =
  code :: string
  usage_limit :: "nat option"
  apply_once_per_customer :: bool

text \<open>\<open>if voucher.usage_limit:\<close> is false for None and for 0.\<close>

definition has_usage_limit :: "Voucher \<Rightarrow> bool" where
  "has_usage_limit v = (case usage_limit v of None \<Rightarrow> False | Some n \<Rightarrow> 0 < n)"

record User =
  user_email :: string
  user_is_active :: bool

text \<open>
  A Checkout row; its primary key is the token. \<open>payment_transactions\<close> is the related
  set of transaction items (their ids); \<open>checkout_total\<close> is \<open>checkout.total\<close>.
\<close>

record Checkout =
  token :: string
  checkout_user :: "User option"
  email :: "string option"
  voucher_code :: "string option"
  discount_amount :: rat
  discount_name :: "string option"
  translated_discount_name :: "string option"
  checkout_currency :: string
  checkout_total :: TaxedMoney
  authorize_status :: CheckoutAuthorizeStatus
  payment_transactions :: "nat list"
  tax_exemption :: bool
  language_code :: string

text \<open>The property \<open>checkout.discount\<close>.\<close>

definition discount :: "Checkout \<Rightarrow> Money" where
  "discount co = \<lparr>amount = discount_amount co, currency = checkout_currency co\<rparr>"

record Promotion =
  sale_id :: "nat option"
  promotion_discount_reason :: string

record CheckoutLineDiscount =
  promotion_rule :: nat
  line_discount_amount :: rat

record ProductVariant =
  variant_id :: int
  variant_str :: string
  sku :: "string option"

record Product =
  product_id :: int
  product_str :: string

record CheckoutLine =
  line_pk :: nat
  quantity :: int

text \<open>
  CheckoutLineInfo: \<open>promotion_discounts\<close> is what \<open>get_promotion_discounts()\<close> returns and
  \<open>rules_info\<close> holds the promotion of each rule; \<open>product_str\<close> and \<open>variant_str\<close> are
  \<open>str(product)\<close> and \<open>str(variant)\<close>.
\<close>

record CheckoutLineInfo =
  line :: CheckoutLine
  variant :: ProductVariant
  product :: Product
  line_voucher :: "Voucher option"
  promotion_discounts :: "CheckoutLineDiscount list"
  rules_info :: "Promotion list"

record CheckoutInfo =
  checkout :: Checkout
  channel :: Channel
  voucher :: "Voucher option"
  user :: "User option"
  prices_entered_with_tax :: bool
  warehouse_pk :: "nat option"

text \<open>
  Modelled from the spec: \<open>CheckoutInfo.get_customer_email\<close> and
  \<open>Checkout.get_customer_email\<close> are not in the sources; the user's email when there is a
  user, the checkout's guest email otherwise.
\<close>

definition get_customer_email :: "CheckoutInfo \<Rightarrow> string option" where
  "get_customer_email ci =
     (case user ci of Some u \<Rightarrow> Some (user_email u) | None \<Rightarrow> email (checkout ci))"

definition checkout_get_customer_email :: "Checkout \<Rightarrow> string option" where
  "checkout_get_customer_email co =
     (case checkout_user co of Some u \<Rightarrow> Some (user_email u) | None \<Rightarrow> email co)"

subsection \<open>Order lines\<close>

text \<open>What the pricing engine (\<open>calculations\<close>, \<open>base_calculations\<close>) returns for one line.\<close>

record LinePrices =
  calc_base_unit_price :: Money
  calc_undiscounted_base_unit_price :: Money
  calc_undiscounted_base_total_price :: Money
  calc_total_line_price :: TaxedMoney
  calc_unit_price :: TaxedMoney
  calc_tax_rate :: rat

record OrderLine =
  order_id :: "nat option"
  product_name :: string
  variant_name :: string
  translated_product_name :: "string option"
  translated_variant_name :: "string option"
  product_sku :: "string option"
  ol_quantity :: int
  unit_price :: TaxedMoney
  undiscounted_unit_price :: TaxedMoney
  undiscounted_total_price :: TaxedMoney
  total_price :: TaxedMoney
  tax_rate :: rat
  ol_voucher_code :: "string option"
  unit_discount :: Money
  unit_discount_reason :: "string option"
  unit_discount_value :: rat
  base_unit_price :: Money
  undiscounted_base_unit_price :: Money
  ol_sale_id :: "nat option"

record OrderLineDiscount =
  old_promotion_rule_id :: nat
  old_amount :: rat
  old_line_id :: "nat option"

record OrderLineInfo =
  oli_line :: OrderLine
  oli_quantity :: int
  oli_variant :: ProductVariant
  oli_warehouse_pk :: "nat option"
  line_discounts :: "OrderLineDiscount list"

text \<open>\<open>d.get(key, "")\<close> on a dictionary whose values may be None.\<close>

definition dict_get_or_empty :: "(int \<rightharpoonup> string option) \<Rightarrow> int \<Rightarrow> string option" where
  "dict_get_or_empty d k = (case d k of None \<Rightarrow> Some [] | Some v \<Rightarrow> v)"

definition create_order_line_discounts' ::
  "CheckoutLineInfo \<Rightarrow> OrderLine \<Rightarrow> OrderLineDiscount list" where
  "create_order_line_discounts' checkout_line_info order_line =
     map (\<lambda>d. \<lparr>old_promotion_rule_id = promotion_rule d,
               old_amount = line_discount_amount d,
               old_line_id = None\<rparr>)
         (promotion_discounts checkout_line_info)"

text \<open>
  \<open>_create_line_for_order\<close>. \<open>prices\<close> is what the pricing engine returns for the line.
  The subtraction raises ValueError on a currency mismatch, \<open>rules_info[0]\<close> raises
  IndexError on an empty list.
\<close>

definition create_line_for_order' ::
  "CheckoutInfo \<Rightarrow> CheckoutLineInfo \<Rightarrow> LinePrices \<Rightarrow> (int \<rightharpoonup> string option) \<Rightarrow>
   (int \<rightharpoonup> string option) \<Rightarrow> bool \<Rightarrow> exn + OrderLineInfo" where
  "create_line_for_order' checkout_info checkout_line_info prices products_translation
       variants_translation prices_entered_with_tax' =
     (let checkout_line = line checkout_line_info;
          quantity' = quantity checkout_line;
          variant' = variant checkout_line_info;
          product' = product checkout_line_info;
          product_name' = product_str product';
          variant_name' = variant_str variant';
          translated_product_name0 = dict_get_or_empty products_translation (product_id product');
          translated_variant_name0 = dict_get_or_empty variants_translation (variant_id variant');
          translated_product_name' =
            (if translated_product_name0 = Some product_name' then Some []
             else translated_product_name0);
          translated_variant_name' =
            (if translated_variant_name0 = Some variant_name' then Some []
             else translated_variant_name0);
          undiscounted_unit_price' =
            \<lparr>net = calc_undiscounted_base_unit_price prices,
             gross = calc_undiscounted_base_unit_price prices\<rparr>;
          undiscounted_total_price' =
            \<lparr>net = calc_undiscounted_base_total_price prices,
             gross = calc_undiscounted_base_total_price prices\<rparr>;
          voucher_code' =
            (case line_voucher checkout_line_info of None \<Rightarrow> None | Some v \<Rightarrow> Some (code v))
      in case taxed_money_sub undiscounted_unit_price' (calc_unit_price prices) of
           Inl e \<Rightarrow> Inl e
         | Inr discount_price \<Rightarrow>
             (let discount_amount' =
                    (if prices_entered_with_tax' then gross discount_price
                     else net discount_price);
                  unit_discount_reason0 =
                    (case voucher_code' of
                       None \<Rightarrow> None
                     | Some c \<Rightarrow> if c = [] then None else Some (''Voucher code: '' @ c));
                  line0 = \<lparr>order_id = None,
                           product_name = product_name',
                           variant_name = variant_name',
                           translated_product_name = translated_product_name',
                           translated_variant_name = translated_variant_name',
                           product_sku = sku variant',
                           ol_quantity = quantity',
                           unit_price = calc_unit_price prices,
                           undiscounted_unit_price = undiscounted_unit_price',
                           undiscounted_total_price = undiscounted_total_price',
                           total_price = calc_total_line_price prices,
                           tax_rate = calc_tax_rate prices,
                           ol_voucher_code = voucher_code',
                           unit_discount = discount_amount',
                           unit_discount_reason = unit_discount_reason0,
                           unit_discount_value = amount discount_amount',
                           base_unit_price = calc_base_unit_price prices,
                           undiscounted_base_unit_price =
                             calc_undiscounted_base_unit_price prices,
                           ol_sale_id = None\<rparr>;
                  line_discounts' = create_order_line_discounts' checkout_line_info line0;
                  info = (\<lambda>l. \<lparr>oli_line = l,
                                oli_quantity = quantity',
                                oli_variant = variant',
                                oli_warehouse_pk = warehouse_pk checkout_info,
                                line_discounts = line_discounts'\<rparr>)
              in if line_discounts' = [] then Inr (info line0)
                 else (case rules_info checkout_line_info of
                         [] \<Rightarrow> Inl IndexError
                       | promotion # _ \<Rightarrow>
                           Inr (info (line0
                             \<lparr>ol_sale_id := sale_id promotion,
                              unit_discount_reason :=
                                (case unit_discount_reason0 of
                                   Some r \<Rightarrow> Some (r @ '' & '' @ promotion_discount_reason promotion)
                                 | None \<Rightarrow> Some (promotion_discount_reason promotion))\<rparr>)))))"

subsection \<open>Payments, orders and the database\<close>

record Payment =
  payment_pk :: nat
  to_confirm :: bool
  payment_is_active :: bool
  payment_transactions_of :: "(TransactionKind \<times> bool) list"

text \<open>The gateway's answer (the Transaction row of a payment: kind left out).\<close>

record Transaction =
  is_success :: bool
  action_required :: bool
  action_required_data :: "(string \<times> string) list"

record Order =
  order_pk :: nat
  checkout_token :: string
  status :: OrderStatus
  origin :: OrderOrigin
  order_channel :: Channel
  order_total :: TaxedMoney
  order_voucher :: "Voucher option"
  order_user_email :: "string option"
  should_refresh_prices :: bool
  order_tax_exemption :: bool

record OrderDiscount =
  discount_order_id :: nat
  discount_type :: DiscountType
  value_type :: DiscountValueType
  discount_value :: rat
  od_name :: "string option"
  od_translated_name :: "string option"
  od_currency :: string
  amount_value :: rat

record Stock =
  stock_pk :: nat
  product_variant_id :: int

record Reservation =
  quantity_reserved :: int
  reserved_until :: int
  stock :: Stock
  checkout_line :: CheckoutLine

datatype gateway_call = Confirm nat | ProcessPayment nat | RefundOrVoid nat

text \<open>
  The tables the orchestration reads and writes. \<open>voucher_used\<close> is the column
  \<open>Voucher.used\<close> by voucher code, \<open>voucher_customers\<close> the VoucherCustomer rows,
  \<open>paid_orders\<close> the orders marked as paid (by primary key). \<open>gateway_calls\<close> is not a
  table: it records the calls made to the payment gateway, which no rollback undoes.
\<close>

record db =
  checkouts :: "Checkout list"
  orders :: "Order list"
  next_order_pk :: nat
  order_discounts :: "OrderDiscount list"
  order_lines :: "OrderLine list"
  order_line_discounts :: "OrderLineDiscount list"
  reservations :: "Reservation list"
  voucher_used :: "string \<Rightarrow> int"
  voucher_customers :: "(string \<times> string option) list"
  paid_orders :: "nat list"
  gateway_calls :: "gateway_call list"

subsection \<open>Actions: state, exceptions and transactions\<close>

type_synonym 'a action = "db \<Rightarrow> (exn + 'a) \<times> db"

definition returnE :: "'a \<Rightarrow> 'a action" where
  "returnE v s = (Inr v, s)"

definition raiseE :: "exn \<Rightarrow> 'a action" where
  "raiseE e s = (Inl e, s)"

definition bindE :: "'a action \<Rightarrow> ('a \<Rightarrow> 'b action) \<Rightarrow> 'b action" where
  "bindE m f s = (case m s of (Inl e, s') \<Rightarrow> (Inl e, s') | (Inr v, s') \<Rightarrow> f v s')"

text \<open>try: m except: h. The handler sees the state the failing block left.\<close>

definition catchE :: "'a action \<Rightarrow> (exn \<Rightarrow> 'a action) \<Rightarrow> 'a action" where
  "catchE m h s = (case m s of (Inl e, s') \<Rightarrow> h e s' | (Inr v, s') \<Rightarrow> (Inr v, s'))"

definition liftS :: "(db \<Rightarrow> db) \<Rightarrow> unit action" where
  "liftS f s = (Inr (), f s)"

definition liftV :: "exn + 'a \<Rightarrow> 'a action" where
  "liftV r s = (r, s)"

text \<open>An external check that raises \<open>e\<close> unless it passes.\<close>

definition require :: "bool \<Rightarrow> exn \<Rightarrow> unit action" where
  "require ok e s = (if ok then (Inr (), s) else (Inl e, s))"

text \<open>
  Django's \<open>transaction.atomic()\<close> (and the decorator \<open>traced_atomic_transaction\<close>): when
  an exception leaves the block, the transaction (the savepoint, for a nested block) is
  rolled back, and with it every row the block wrote, also those written by an
  \<open>except\<close> handler inside the block before it re-raises; the calls already made to the
  gateway stay made.
\<close>

definition rollback :: "db \<Rightarrow> db \<Rightarrow> db" where
  "rollback s0 s1 = s0\<lparr>gateway_calls := gateway_calls s1\<rparr>"

definition atomic :: "'a action \<Rightarrow> 'a action" where
  "atomic m s =
     (case m s of (Inl e, s') \<Rightarrow> (Inl e, rollback s s') | (Inr v, s') \<Rightarrow> (Inr v, s'))"

text \<open>
  Modelled from the spec: \<open>transaction_with_commit_on_errors\<close> (core/transactions.py) is
  not in the sources; it commits what the block wrote and then re-raises the error.
\<close>

definition transaction_with_commit_on_errors :: "'a action \<Rightarrow> 'a action" where
  "transaction_with_commit_on_errors m = m"

subsection \<open>The voucher ledger (discount/utils.py)\<close>

text \<open>
  Modelled from the spec: \<open>increase_voucher_usage\<close>, \<open>add_voucher_usage_by_customer\<close> and
  \<open>release_voucher_usage\<close> are not in the sources. The usage counter goes up by one.
  \<open>add_voucher_usage_by_customer\<close> registers the customer's use of the voucher and raises
  NotApplicable when that customer's use is registered already (the ledger's failure,
  voucher not applicable). A release with no voucher does nothing, otherwise it takes
  the counter of a usage-limited voucher down by one and removes the customer's usage.
\<close>

definition increase_voucher_usage :: "Voucher \<Rightarrow> db \<Rightarrow> db" where
  "increase_voucher_usage v s =
     s\<lparr>voucher_used := (voucher_used s)(code v := voucher_used s (code v) + 1)\<rparr>"

definition decrease_voucher_usage :: "Voucher \<Rightarrow> db \<Rightarrow> db" where
  "decrease_voucher_usage v s =
     s\<lparr>voucher_used := (voucher_used s)(code v := voucher_used s (code v) - 1)\<rparr>"

definition add_voucher_usage_by_customer :: "Voucher \<Rightarrow> string option \<Rightarrow> unit action" where
  "add_voucher_usage_by_customer v customer_email s =
     (if (code v, customer_email) \<in> set (voucher_customers s)
      then (Inl NotApplicable, s)
      else (Inr (), s\<lparr>voucher_customers := voucher_customers s @ [(code v, customer_email)]\<rparr>))"

definition remove_voucher_usage_by_customer :: "Voucher \<Rightarrow> string option \<Rightarrow> db \<Rightarrow> db" where
  "remove_voucher_usage_by_customer v customer_email s =
     s\<lparr>voucher_customers := removeAll (code v, customer_email) (voucher_customers s)\<rparr>"

definition release_voucher_usage :: "Voucher option \<Rightarrow> string option \<Rightarrow> db \<Rightarrow> db" where
  "release_voucher_usage v customer_email s =
     (case v of
        None \<Rightarrow> s
      | Some v' \<Rightarrow>
          (let s1 = (if has_usage_limit v' then decrease_voucher_usage v' s else s)
           in if truthy_str customer_email
              then remove_voucher_usage_by_customer v' customer_email s1 else s1))"

subsection \<open>The payment gateway and order actions\<close>

text \<open>
  Modelled from the spec: \<open>gateway.payment_refund_or_void\<close> and
  \<open>mark_order_as_paid_with_payment\<close> are not in the sources. A refund-or-void is issued on
  the payment when there is one; marking an order paid records it as fully paid.
\<close>

definition payment_refund_or_void :: "Payment option \<Rightarrow> db \<Rightarrow> db" where
  "payment_refund_or_void payment s =
     (case payment of
        None \<Rightarrow> s
      | Some p \<Rightarrow> s\<lparr>gateway_calls := gateway_calls s @ [RefundOrVoid (payment_pk p)]\<rparr>)"

definition mark_order_as_paid_with_payment :: "Order \<Rightarrow> db \<Rightarrow> db" where
  "mark_order_as_paid_with_payment order s =
     s\<lparr>paid_orders := paid_orders s @ [order_pk order]\<rparr>"

text \<open>
  Modelled from the spec: \<open>Order.objects.get_by_checkout_token\<close> is not in the sources; the
  look-up of an order by its checkout token, None when there is none.
\<close>

definition get_by_checkout_token :: "string \<Rightarrow> db \<Rightarrow> Order option" where
  "get_by_checkout_token t s = find (\<lambda>order. checkout_token order = t) (orders s)"

text \<open>\<open>Checkout.objects.select_for_update().filter(pk=...).first()\<close> and \<open>checkout.delete()\<close>.\<close>

definition select_checkout_for_update :: "string \<Rightarrow> db \<Rightarrow> Checkout option" where
  "select_checkout_for_update pk s = find (\<lambda>co. token co = pk) (checkouts s)"

definition delete_checkout :: "Checkout \<Rightarrow> db \<Rightarrow> db" where
  "delete_checkout co s = s\<lparr>checkouts := filter (\<lambda>c. token c \<noteq> token co) (checkouts s)\<rparr>"

subsection \<open>Collaborators\<close>

text \<open>
  What the functions below receive from code outside this file: the pricing engine,
  the validators of checkout_cleaner, the stock engine, the gift-card collaborator, the
  plugin manager, the payment gateway and the queries that load a checkout. A boolean
  result says whether the call passes; when it does not, the call raises the exception
  its documentation names. \<open>other_workers\<close> is what concurrent requests do to the
  database while no lock is held; \<open>now\<close> is the clock (its k-th reading) and
  \<open>RESERVE_DURATION\<close> the setting, in seconds.
\<close>

record collab =
  get_voucher_for_checkout_info :: "CheckoutInfo \<Rightarrow> Voucher option"
  check_stock_and_preorder_quantity_bulk :: "CheckoutInfo \<Rightarrow> CheckoutLineInfo list \<Rightarrow> bool"
  validate_gift_cards' :: "Checkout \<Rightarrow> bool"
  preprocess_order_creation :: "CheckoutInfo \<Rightarrow> CheckoutLineInfo list \<Rightarrow> bool"
  allocate_stocks :: "CheckoutInfo \<Rightarrow> OrderLineInfo list \<Rightarrow> bool"
  allocate_preorders :: "CheckoutInfo \<Rightarrow> OrderLineInfo list \<Rightarrow> bool"
  add_gift_cards_to_order :: "CheckoutInfo \<Rightarrow> Money \<Rightarrow> bool"
  clean_checkout_payment :: "CheckoutInfo \<Rightarrow> Payment option \<Rightarrow> CheckoutErrorCode option"
  clean_checkout_shipping :: "CheckoutInfo \<Rightarrow> CheckoutErrorCode option"
  clean_billing_address :: "CheckoutInfo \<Rightarrow> CheckoutErrorCode option"
  validate_storefront_url :: "string \<Rightarrow> bool"
  recalculated_total :: "CheckoutInfo \<Rightarrow> CheckoutLineInfo list \<Rightarrow> TaxedMoney"
  fetch_checkout_lines :: "Checkout \<Rightarrow> CheckoutLineInfo list"
  load_checkout_info :: "Checkout \<Rightarrow> Voucher option \<Rightarrow> CheckoutInfo"
  retrieve_user_by_email :: "string \<Rightarrow> User option"
  get_last_active_payment :: "Checkout \<Rightarrow> Payment option"
  gateway_confirm :: "Payment \<Rightarrow> Transaction option"
  gateway_process_payment :: "Payment \<Rightarrow> Transaction option"
  refresh_from_db :: "Payment \<Rightarrow> Payment"
  line_prices :: "CheckoutInfo \<Rightarrow> CheckoutLineInfo \<Rightarrow> LinePrices"
  calculate_checkout_total_with_gift_cards :: "CheckoutInfo \<Rightarrow> CheckoutLineInfo list \<Rightarrow> TaxedMoney"
  checkout_shipping_price :: "CheckoutInfo \<Rightarrow> CheckoutLineInfo list \<Rightarrow> TaxedMoney"
  checkout_subtotal :: "CheckoutInfo \<Rightarrow> CheckoutLineInfo list \<Rightarrow> TaxedMoney"
  product_translations :: "string \<Rightarrow> int \<rightharpoonup> string option"
  variant_translations :: "string \<Rightarrow> int \<rightharpoonup> string option"
  get_variants_stocks_for_country :: "CheckoutInfo \<Rightarrow> ProductVariant list \<Rightarrow> Stock list"
  now :: "nat \<Rightarrow> int"
  RESERVE_DURATION :: int
  other_workers :: "db \<Rightarrow> db"

text \<open>
  Modelled from the spec: \<open>fetch_checkout_data\<close> and \<open>fetch_checkout_info\<close> are not in the
  sources. The first recalculates the prices of the checkout object in place (of them,
  the total is read here); the second builds the info of the checkout row it is given.
\<close>

definition fetch_checkout_data ::
  "collab \<Rightarrow> CheckoutInfo \<Rightarrow> CheckoutLineInfo list \<Rightarrow> CheckoutInfo" where
  "fetch_checkout_data X checkout_info lines =
     checkout_info\<lparr>checkout :=
       (checkout checkout_info)\<lparr>checkout_total := recalculated_total X checkout_info lines\<rparr>\<rparr>"

definition fetch_checkout_info :: "collab \<Rightarrow> Checkout \<Rightarrow> Voucher option \<Rightarrow> CheckoutInfo" where
  "fetch_checkout_info X co v = (load_checkout_info X co v)\<lparr>checkout := co\<rparr>"

text \<open>A validator that raises ValidationError with the code it returns.\<close>

definition validate :: "CheckoutErrorCode option \<Rightarrow> unit action" where
  "validate r s = (case r of None \<Rightarrow> (Inr (), s) | Some c \<Rightarrow> (Inl (ValidationError c), s))"

subsection \<open>Preparing the order data (payment flow)\<close>

definition process_voucher_data_for_order' ::
  "collab \<Rightarrow> CheckoutInfo \<Rightarrow> Voucher option action" where
  "process_voucher_data_for_order' X checkout_info s =
     (let voucher' = get_voucher_for_checkout_info X checkout_info
      in if truthy_str (voucher_code (checkout checkout_info)) \<and> voucher' = None
         then (Inl NotApplicable, s)
         else (case voucher' of
                 None \<Rightarrow> (Inr None, s)
               | Some v \<Rightarrow>
                   bindE (if has_usage_limit v then liftS (increase_voucher_usage v)
                          else returnE ()) (\<lambda>_.
                   bindE (if apply_once_per_customer v
                          then add_voucher_usage_by_customer v
                                 (get_customer_email checkout_info)
                          else returnE ()) (\<lambda>_.
                   returnE (Some v))) s))"

fun create_lines' ::
  "collab \<Rightarrow> CheckoutInfo \<Rightarrow> bool \<Rightarrow> CheckoutLineInfo list \<Rightarrow> exn + OrderLineInfo list" where
  "create_lines' X checkout_info pewt [] = Inr []"
| "create_lines' X checkout_info pewt (l # ls) =
     (case create_line_for_order' checkout_info l (line_prices X checkout_info l)
             (product_translations X (language_code (checkout checkout_info)))
             (variant_translations X (language_code (checkout checkout_info))) pewt of
        Inl e \<Rightarrow> Inl e
      | Inr ol \<Rightarrow>
          (case create_lines' X checkout_info pewt ls of
             Inl e \<Rightarrow> Inl e
           | Inr ols \<Rightarrow> Inr (ol # ols)))"

text \<open>
  \<open>_create_lines_for_order\<close>: the bulk stock check, then one order line per checkout line
  (\<open>create_lines'\<close> is the list comprehension).
\<close>

definition create_lines_for_order' ::
  "collab \<Rightarrow> CheckoutInfo \<Rightarrow> CheckoutLineInfo list \<Rightarrow> bool \<Rightarrow> exn + OrderLineInfo list" where
  "create_lines_for_order' X checkout_info lines pewt =
     (if check_stock_and_preorder_quantity_bulk X checkout_info lines
      then create_lines' X checkout_info pewt lines
      else Inl InsufficientStock)"

text \<open>The keys of the \<open>order_data\<close> dictionary that are read later.\<close>

record OrderData =
  od_lines :: "OrderLineInfo list"
  od_total :: TaxedMoney
  od_undiscounted_total :: TaxedMoney
  od_voucher :: "Voucher option"
  od_user_email :: "string option"
  od_total_price_left :: Money

definition undiscounted_total_of ::
  "string \<Rightarrow> OrderLineInfo list \<Rightarrow> TaxedMoney \<Rightarrow> exn + TaxedMoney" where
  "undiscounted_total_of cur ols shipping_total =
     (case sum_taxed (zero_taxed_money cur)
             (map (\<lambda>l. undiscounted_total_price (oli_line l)) ols) of
        Inl e \<Rightarrow> Inl e
      | Inr t \<Rightarrow> taxed_money_add t shipping_total)"

definition total_price_left_of :: "TaxedMoney \<Rightarrow> TaxedMoney \<Rightarrow> Money \<Rightarrow> exn + Money" where
  "total_price_left_of subtotal shipping_total discount' =
     (case taxed_money_add subtotal shipping_total of
        Inl e \<Rightarrow> Inl e
      | Inr t \<Rightarrow>
          (case taxed_money_sub_money t discount' of
             Inl e \<Rightarrow> Inl e
           | Inr r \<Rightarrow> Inr (gross r)))"

definition prepare_order_data' ::
  "collab \<Rightarrow> CheckoutInfo \<Rightarrow> CheckoutLineInfo list \<Rightarrow> bool \<Rightarrow> OrderData action" where
  "prepare_order_data' X checkout_info lines pewt =
     (let checkout' = checkout checkout_info;
          taxed_total = calculate_checkout_total_with_gift_cards X checkout_info lines;
          shipping_total = checkout_shipping_price X checkout_info lines;
          user_email' = get_customer_email checkout_info
      in bindE (liftV (create_lines_for_order' X checkout_info lines pewt)) (\<lambda>ols.
         bindE (liftV (undiscounted_total_of (currency (net taxed_total)) ols shipping_total))
           (\<lambda>undiscounted_total.
         bindE (require (validate_gift_cards' X checkout') GiftCardNotApplicable) (\<lambda>_.
         bindE (process_voucher_data_for_order' X checkout_info) (\<lambda>voucher'.
         bindE (liftV (total_price_left_of (checkout_subtotal X checkout_info lines)
                         shipping_total (discount checkout'))) (\<lambda>total_price_left.
         bindE (catchE (require (preprocess_order_creation X checkout_info lines) TaxError)
                  (\<lambda>e. case e of
                          TaxError \<Rightarrow>
                            bindE (liftS (release_voucher_usage voucher' user_email'))
                              (\<lambda>_. raiseE e)
                        | _ \<Rightarrow> raiseE e)) (\<lambda>_.
         returnE \<lparr>od_lines = ols,
                  od_total = taxed_total,
                  od_undiscounted_total = undiscounted_total,
                  od_voucher = voucher',
                  od_user_email = user_email',
                  od_total_price_left = total_price_left\<rparr>)))))))"

definition get_order_data' ::
  "collab \<Rightarrow> CheckoutInfo \<Rightarrow> CheckoutLineInfo list \<Rightarrow> OrderData action" where
  "get_order_data' X checkout_info lines =
     catchE (prepare_order_data' X checkout_info lines (prices_entered_with_tax checkout_info))
       (\<lambda>e. case e of
               InsufficientStock \<Rightarrow> raiseE (ValidationError INSUFFICIENT_STOCK)
             | NotApplicable \<Rightarrow> raiseE (ValidationError VOUCHER_NOT_APPLICABLE)
             | GiftCardNotApplicable \<Rightarrow> raiseE (ValidationError GIFT_CARD_NOT_APPLICABLE)
             | TaxError \<Rightarrow> raiseE (ValidationError TAX_ERROR)
             | _ \<Rightarrow> raiseE e)"

subsection \<open>Validating the checkout\<close>

text \<open>
  \<open>_prepare_checkout\<close> and its two callers. After the checks \<open>_prepare_checkout\<close> stores
  a new redirect URL on the checkout, a column left out of the Checkout record.
\<close>

definition prepare_checkout' ::
  "collab \<Rightarrow> CheckoutInfo \<Rightarrow> string option \<Rightarrow> unit action" where
  "prepare_checkout' X checkout_info redirect_url =
     bindE (validate (clean_checkout_shipping X checkout_info)) (\<lambda>_.
     bindE (require (is_active (channel checkout_info)) (ValidationError CHANNEL_INACTIVE)) (\<lambda>_.
     (case redirect_url of
        None \<Rightarrow> returnE ()
      | Some url \<Rightarrow>
          if url = [] then returnE ()
          else require (validate_storefront_url X url) (ValidationError INVALID))))"

definition prepare_checkout_with_transactions' ::
  "collab \<Rightarrow> CheckoutInfo \<Rightarrow> CheckoutLineInfo list \<Rightarrow> string option \<Rightarrow> unit action" where
  "prepare_checkout_with_transactions' X checkout_info lines redirect_url =
     bindE (validate (clean_billing_address X checkout_info)) (\<lambda>_.
     bindE (require (\<not> (authorize_status (checkout checkout_info) \<noteq> FULL
                         \<and> \<not> allow_unpaid_orders (channel checkout_info)))
              (ValidationError CHECKOUT_NOT_FULLY_PAID)) (\<lambda>_.
     bindE (require (\<not> (truthy_str (voucher_code (checkout checkout_info))
                         \<and> voucher checkout_info = None))
              (ValidationError VOUCHER_NOT_APPLICABLE)) (\<lambda>_.
     bindE (require (validate_gift_cards' X (checkout checkout_info)) GiftCardNotApplicable) (\<lambda>_.
     bindE (prepare_checkout' X checkout_info redirect_url) (\<lambda>_.
     catchE (require (preprocess_order_creation X checkout_info lines) TaxError)
       (\<lambda>e. case e of
               TaxError \<Rightarrow> raiseE (ValidationError TAX_ERROR)
             | _ \<Rightarrow> raiseE e))))))"

definition prepare_checkout_with_payment' ::
  "collab \<Rightarrow> CheckoutInfo \<Rightarrow> string option \<Rightarrow> Payment option \<Rightarrow> unit action" where
  "prepare_checkout_with_payment' X checkout_info redirect_url payment =
     bindE (validate (clean_checkout_payment X checkout_info payment)) (\<lambda>_.
     prepare_checkout' X checkout_info redirect_url)"

subsection \<open>Order materialization\<close>

text \<open>\<open>Order.objects.create\<close>: the row gets the next primary key.\<close>

definition insert_order :: "Order \<Rightarrow> db \<Rightarrow> db" where
  "insert_order order s = s\<lparr>orders := orders s @ [order], next_order_pk := Suc (next_order_pk s)\<rparr>"

definition handle_checkout_discount' :: "Order \<Rightarrow> Checkout \<Rightarrow> db \<Rightarrow> db" where
  "handle_checkout_discount' order checkout' s =
     (if amount (discount checkout') = 0 then s
      else s\<lparr>order_discounts := order_discounts s @
             [\<lparr>discount_order_id = order_pk order,
               discount_type = VOUCHER,
               value_type = FIXED,
               discount_value = amount (discount checkout'),
               od_name = discount_name checkout',
               od_translated_name = translated_discount_name checkout',
               od_currency = checkout_currency checkout',
               amount_value = discount_amount checkout'\<rparr>]\<rparr>)"

text \<open>
  The loop that gives every line its order and the two \<open>bulk_create\<close> calls that follow it.
\<close>

definition bulk_create_lines :: "nat \<Rightarrow> OrderLineInfo list \<Rightarrow> db \<Rightarrow> db" where
  "bulk_create_lines pk order_lines_info s =
     s\<lparr>order_lines := order_lines s @
          map (\<lambda>li. (oli_line li)\<lparr>order_id := Some pk\<rparr>) order_lines_info,
       order_line_discounts := order_line_discounts s @
          concat (map line_discounts order_lines_info)\<rparr>"

text \<open>
  \<open>_create_order\<close>, under \<open>traced_atomic_transaction\<close>. The statements after the gift cards
  reassign the checkout's payments, write columns left out of the Order record (metadata,
  redirect URL, charge and authorize data, search vector) and schedule the post-commit
  hooks.
\<close>

definition create_order' ::
  "collab \<Rightarrow> CheckoutInfo \<Rightarrow> CheckoutLineInfo list \<Rightarrow> OrderData \<Rightarrow> Order action" where
  "create_order' X checkout_info checkout_lines order_data =
     atomic (\<lambda>s.
       (let checkout' = checkout checkout_info
        in case find (\<lambda>order. checkout_token order = token checkout') (orders s) of
             Some order \<Rightarrow> (Inr order, s)
           | None \<Rightarrow>
               (let total_price_left = od_total_price_left order_data;
                    order_lines_info = od_lines order_data;
                    status' =
                      (if automatically_confirm_all_new_orders (channel checkout_info)
                       then UNFULFILLED else UNCONFIRMED);
                    order = \<lparr>order_pk = next_order_pk s,
                             checkout_token = token checkout',
                             status = status',
                             origin = CHECKOUT,
                             order_channel = channel checkout_info,
                             order_total = od_total order_data,
                             order_voucher = od_voucher order_data,
                             order_user_email = od_user_email order_data,
                             should_refresh_prices = False,
                             order_tax_exemption = tax_exemption checkout'\<rparr>
                in bindE (liftS (insert_order order)) (\<lambda>_.
                   bindE (liftS (handle_checkout_discount' order checkout')) (\<lambda>_.
                   bindE (liftS (bulk_create_lines (order_pk order) order_lines_info)) (\<lambda>_.
                   bindE (require (allocate_stocks X checkout_info order_lines_info)
                            InsufficientStock) (\<lambda>_.
                   bindE (require (allocate_preorders X checkout_info order_lines_info)
                            InsufficientStock) (\<lambda>_.
                   bindE (require (add_gift_cards_to_order X checkout_info total_price_left)
                            GiftCardNotApplicable) (\<lambda>_.
                   returnE order)))))) s)))"

text \<open>
  \<open>_create_order_lines_from_checkout_lines\<close> and \<open>_handle_allocations_of_order_lines\<close>.
\<close>

definition create_order_lines_from_checkout_lines' ::
  "collab \<Rightarrow> CheckoutInfo \<Rightarrow> CheckoutLineInfo list \<Rightarrow> nat \<Rightarrow> bool \<Rightarrow>
   OrderLineInfo list action" where
  "create_order_lines_from_checkout_lines' X checkout_info lines order_pk' pewt =
     bindE (liftV (create_lines_for_order' X checkout_info lines pewt)) (\<lambda>order_lines_info.
     bindE (liftS (bulk_create_lines order_pk' order_lines_info)) (\<lambda>_.
     returnE order_lines_info))"

definition handle_allocations_of_order_lines' ::
  "collab \<Rightarrow> CheckoutInfo \<Rightarrow> OrderLineInfo list \<Rightarrow> unit action" where
  "handle_allocations_of_order_lines' X checkout_info order_lines_info =
     bindE (require (allocate_stocks X checkout_info order_lines_info) InsufficientStock) (\<lambda>_.
     require (allocate_preorders X checkout_info order_lines_info) InsufficientStock)"

text \<open>\<open>queryset.exists()\<close> and the truth value of a queryset.\<close>

definition exists_rows :: "'a list \<Rightarrow> bool" where
  "exists_rows xs = (xs \<noteq> [])"

text \<open>
  \<open>_create_order_from_checkout\<close>, the materializer of the transaction flow. The
  undiscounted total is computed (the sum can raise) and saved in a column left out of the
  Order record; so are the metadata, the payments and the search vector, and
  \<open>_post_create_order_actions\<close> only schedules the post-commit hooks.
\<close>

definition create_order_from_checkout' ::
  "collab \<Rightarrow> CheckoutInfo \<Rightarrow> CheckoutLineInfo list \<Rightarrow> Order action" where
  "create_order_from_checkout' X checkout_info checkout_lines_info s =
     (let checkout' = checkout checkout_info;
          pewt = prices_entered_with_tax checkout_info;
          taxed_total = calculate_checkout_total_with_gift_cards X checkout_info checkout_lines_info;
          voucher' = voucher checkout_info;
          shipping_total = checkout_shipping_price X checkout_info checkout_lines_info;
          status' =
            (if automatically_confirm_all_new_orders (channel checkout_info)
                \<and> exists_rows (payment_transactions checkout')
             then UNFULFILLED else UNCONFIRMED);
          order = \<lparr>order_pk = next_order_pk s,
                   checkout_token = token checkout',
                   status = status',
                   origin = CHECKOUT,
                   order_channel = channel checkout_info,
                   order_total = taxed_total,
                   order_voucher = voucher',
                   order_user_email = get_customer_email checkout_info,
                   should_refresh_prices = False,
                   order_tax_exemption = tax_exemption checkout'\<rparr>
      in bindE (liftS (insert_order order)) (\<lambda>_.
         bindE (liftS (handle_checkout_discount' order checkout')) (\<lambda>_.
         bindE (create_order_lines_from_checkout_lines' X checkout_info checkout_lines_info
                  (order_pk order) pewt) (\<lambda>order_lines_info.
         bindE (liftV (undiscounted_total_of (currency (net taxed_total)) order_lines_info
                         shipping_total)) (\<lambda>undiscounted_total.
         bindE (handle_allocations_of_order_lines' X checkout_info order_lines_info) (\<lambda>_.
         bindE (liftV (sum_taxed (zero_taxed_money (checkout_currency checkout'))
                         (map (\<lambda>l. total_price (oli_line l)) order_lines_info))) (\<lambda>subtotal.
         bindE (liftV (total_price_left_of subtotal shipping_total (discount checkout')))
           (\<lambda>total_without_giftcard.
         bindE (require (add_gift_cards_to_order X checkout_info total_without_giftcard)
                  GiftCardNotApplicable) (\<lambda>_.
         returnE order)))))))) s)"

subsection \<open>The transaction flow\<close>

definition assign_checkout_user ::
  "collab \<Rightarrow> User option \<Rightarrow> CheckoutInfo \<Rightarrow> CheckoutInfo" where
  "assign_checkout_user X user' checkout_info =
     (if user' = None \<and> user checkout_info = None
         \<and> truthy_str (email (checkout checkout_info))
      then checkout_info\<lparr>user :=
             (case retrieve_user_by_email X (the (email (checkout checkout_info))) of
                None \<Rightarrow> None
              | Some existing_user \<Rightarrow>
                  if user_is_active existing_user then Some existing_user else None)\<rparr>
      else checkout_info)"

definition increase_voucher_usage' :: "collab \<Rightarrow> CheckoutInfo \<Rightarrow> unit action" where
  "increase_voucher_usage' X checkout_info s =
     (case get_voucher_for_checkout_info X checkout_info of
        None \<Rightarrow> (Inr (), s)
      | Some v \<Rightarrow>
          bindE (if apply_once_per_customer v
                 then add_voucher_usage_by_customer v (get_customer_email checkout_info)
                 else returnE ()) (\<lambda>_.
          if has_usage_limit v then liftS (increase_voucher_usage v) else returnE ()) s)"

text \<open>
  \<open>create_order_from_checkout\<close>: the voucher usage goes up in a transaction of its own;
  the second \<open>transaction.atomic()\<close> block locks the checkout row, materializes the order
  and, on InsufficientStock or GiftCardNotApplicable, releases the voucher usage and
  re-raises from inside the block.
\<close>

definition create_order_from_checkout ::
  "collab \<Rightarrow> CheckoutInfo \<Rightarrow> User option \<Rightarrow> bool \<Rightarrow> Order option action" where
  "create_order_from_checkout X checkout_info user' delete_checkout' =
     (let voucher' = voucher checkout_info
      in bindE (case voucher' of
                  None \<Rightarrow> returnE ()
                | Some _ \<Rightarrow> atomic (increase_voucher_usage' X checkout_info)) (\<lambda>_.
         atomic (\<lambda>s.
           (let checkout_pk = token (checkout checkout_info)
            in case select_checkout_for_update checkout_pk s of
                 None \<Rightarrow> (Inr (get_by_checkout_token checkout_pk s), s)
               | Some checkout' \<Rightarrow>
                   (let checkout_lines = fetch_checkout_lines X checkout';
                        checkout_info1 =
                          assign_checkout_user X user'
                            (fetch_checkout_info X checkout' voucher')
                    in catchE
                         (bindE (create_order_from_checkout' X checkout_info1 checkout_lines)
                            (\<lambda>order.
                          bindE (if delete_checkout'
                                 then liftS (delete_checkout (checkout checkout_info1))
                                 else returnE ()) (\<lambda>_.
                          returnE (Some order))))
                         (\<lambda>e. case e of
                                 InsufficientStock \<Rightarrow>
                                   bindE (liftS (release_voucher_usage (voucher checkout_info1)
                                            (checkout_get_customer_email (checkout checkout_info1))))
                                     (\<lambda>_. raiseE e)
                               | GiftCardNotApplicable \<Rightarrow>
                                   bindE (liftS (release_voucher_usage (voucher checkout_info1)
                                            (checkout_get_customer_email (checkout checkout_info1))))
                                     (\<lambda>_. raiseE e)
                               | _ \<Rightarrow> raiseE e) s)))))"

definition complete_checkout_with_transaction ::
  "collab \<Rightarrow> CheckoutInfo \<Rightarrow> CheckoutLineInfo list \<Rightarrow> User option \<Rightarrow> string option \<Rightarrow>
   Order option action" where
  "complete_checkout_with_transaction X checkout_info lines user' redirect_url =
     catchE
       (bindE (prepare_checkout_with_transactions' X checkout_info lines redirect_url) (\<lambda>_.
        create_order_from_checkout X checkout_info user' True))
       (\<lambda>e. case e of
               NotApplicable \<Rightarrow> raiseE (ValidationError VOUCHER_NOT_APPLICABLE)
             | InsufficientStock \<Rightarrow> raiseE (ValidationError INSUFFICIENT_STOCK)
             | GiftCardNotApplicable \<Rightarrow> raiseE ValidationErrorNoCode
             | _ \<Rightarrow> raiseE e)"

subsection \<open>The payment flow\<close>

text \<open>
  \<open>_reserve_stocks_without_availability_check\<close>. The dictionary comprehension keeps the
  last stock of a variant; the loop reads the clock once for every reservation it makes.
\<close>

definition variants_stocks_map :: "Stock list \<Rightarrow> int \<rightharpoonup> Stock" where
  "variants_stocks_map stocks =
     fold (\<lambda>stock' m. m(product_variant_id stock' \<mapsto> stock')) stocks Map.empty"

fun reserve_loop ::
  "(int \<rightharpoonup> Stock) \<Rightarrow> (nat \<Rightarrow> int) \<Rightarrow> int \<Rightarrow> nat \<Rightarrow> CheckoutLineInfo list \<Rightarrow>
   Reservation list" where
  "reserve_loop m clock duration k [] = []"
| "reserve_loop m clock duration k (l # ls) =
     (case m (variant_id (variant l)) of
        None \<Rightarrow> reserve_loop m clock duration k ls
      | Some stock' \<Rightarrow>
          \<lparr>quantity_reserved = quantity (line l),
           reserved_until = clock k + duration,
           stock = stock',
           checkout_line = line l\<rparr> # reserve_loop m clock duration (Suc k) ls)"

definition reserve_stocks_without_availability_check' ::
  "collab \<Rightarrow> CheckoutInfo \<Rightarrow> CheckoutLineInfo list \<Rightarrow> Reservation list action" where
  "reserve_stocks_without_availability_check' X checkout_info lines s =
     (let variants = map variant lines;
          stocks = get_variants_stocks_for_country X checkout_info variants;
          reservations' =
            reserve_loop (variants_stocks_map stocks) (now X) (RESERVE_DURATION X) 0 lines
      in (Inr reservations', s\<lparr>reservations := reservations s @ reservations'\<rparr>))"

text \<open>
  \<open>_process_payment\<close>: the gateway call is recorded; a gateway that raises PaymentError
  answers None. The payment object is refreshed in place, so it is returned as well.
\<close>

definition call_gateway :: "collab \<Rightarrow> Payment \<Rightarrow> Transaction action" where
  "call_gateway X payment s =
     (if to_confirm payment
      then (case gateway_confirm X payment of
              None \<Rightarrow> Inl PaymentError | Some txn \<Rightarrow> Inr txn,
            s\<lparr>gateway_calls := gateway_calls s @ [Confirm (payment_pk payment)]\<rparr>)
      else (case gateway_process_payment X payment of
              None \<Rightarrow> Inl PaymentError | Some txn \<Rightarrow> Inr txn,
            s\<lparr>gateway_calls := gateway_calls s @ [ProcessPayment (payment_pk payment)]\<rparr>))"

definition process_payment' ::
  "collab \<Rightarrow> Payment \<Rightarrow> OrderData \<Rightarrow> (Transaction \<times> Payment) action" where
  "process_payment' X payment order_data =
     catchE
       (bindE (call_gateway X payment) (\<lambda>txn.
        if is_success txn then returnE (txn, refresh_from_db X payment)
        else raiseE PaymentError))
       (\<lambda>e. case e of
               PaymentError \<Rightarrow>
                 bindE (liftS (release_voucher_usage (od_voucher order_data)
                          (od_user_email order_data)))
                   (\<lambda>_. raiseE (ValidationError PAYMENT_ERROR))
             | _ \<Rightarrow> raiseE e)"

text \<open>
  The handler \<open>except ValidationError as exc: gateway.payment_refund_or_void(...); raise exc\<close>.
\<close>

definition refund_and_reraise :: "Payment option \<Rightarrow> exn \<Rightarrow> 'a action" where
  "refund_and_reraise payment e =
     (case e of
        ValidationError c \<Rightarrow> bindE (liftS (payment_refund_or_void payment)) (\<lambda>_. raiseE e)
      | _ \<Rightarrow> raiseE e)"

text \<open>
  \<open>complete_checkout_pre_payment_part\<close>. \<open>fetch_checkout_data\<close> updates the checkout info
  in place; the customer id, which is only handed to the gateway, is left out of the
  result.
\<close>

definition complete_checkout_pre_payment_part ::
  "collab \<Rightarrow> CheckoutInfo \<Rightarrow> CheckoutLineInfo list \<Rightarrow> string option \<Rightarrow>
   (Payment option \<times> OrderData) action" where
  "complete_checkout_pre_payment_part X checkout_info0 lines redirect_url =
     (let checkout_info = fetch_checkout_data X checkout_info0 lines;
          payment = get_last_active_payment X (checkout checkout_info)
      in bindE (catchE (prepare_checkout_with_payment' X checkout_info redirect_url payment)
                  (refund_and_reraise payment)) (\<lambda>_.
         bindE (catchE (get_order_data' X checkout_info lines) (refund_and_reraise payment))
           (\<lambda>order_data.
         returnE (payment, order_data))))"

definition is_refund_ongoing' :: "Payment option \<Rightarrow> bool" where
  "is_refund_ongoing' payment =
     (case payment of
        None \<Rightarrow> False
      | Some p \<Rightarrow> exists_rows (filter (\<lambda>t. t = (REFUND_ONGOING, True))
                                 (payment_transactions_of p)))"

type_synonym completion = "Order option \<times> bool \<times> (string \<times> string) list"

text \<open>
  \<open>complete_checkout_post_payment_part\<close> (storing the customer id is left out).
\<close>

definition complete_checkout_post_payment_part ::
  "collab \<Rightarrow> CheckoutInfo \<Rightarrow> CheckoutLineInfo list \<Rightarrow> Payment option \<Rightarrow>
   Transaction option \<Rightarrow> OrderData \<Rightarrow> completion action" where
  "complete_checkout_post_payment_part X checkout_info lines payment txn order_data =
     (let release = liftS (release_voucher_usage (od_voucher order_data)
                             (od_user_email order_data));
          action_required' =
            (case (payment, txn) of
               (Some p, Some t) \<Rightarrow> action_required t
             | _ \<Rightarrow> False);
          action_data =
            (case (payment, txn) of
               (Some p, Some t) \<Rightarrow> if action_required t then action_required_data t else []
             | _ \<Rightarrow> [])
      in bindE (if action_required' then release else returnE ()) (\<lambda>_.
         if \<not> action_required' \<and> \<not> is_refund_ongoing' payment
         then bindE
                (catchE
                   (bindE (create_order' X checkout_info lines order_data) (\<lambda>order.
                    bindE (liftS (delete_checkout (checkout checkout_info))) (\<lambda>_.
                    returnE order)))
                   (\<lambda>e. case e of
                           InsufficientStock \<Rightarrow>
                             bindE release (\<lambda>_.
                             bindE (liftS (payment_refund_or_void payment)) (\<lambda>_.
                             raiseE (ValidationError INSUFFICIENT_STOCK)))
                         | GiftCardNotApplicable \<Rightarrow>
                             bindE release (\<lambda>_.
                             bindE (liftS (payment_refund_or_void payment)) (\<lambda>_.
                             raiseE (ValidationError GIFT_CARD_NOT_APPLICABLE)))
                         | _ \<Rightarrow> raiseE e))
                (\<lambda>order.
                 bindE (if amount (net (order_total order)) = 0
                           \<and> order_mark_as_paid_strategy (order_channel order) = PAYMENT_FLOW
                        then liftS (mark_order_as_paid_with_payment order)
                        else returnE ()) (\<lambda>_.
                 returnE (Some order, action_required', action_data)))
         else returnE (None, action_required', action_data)))"

text \<open>
  \<open>complete_checkout_with_payment\<close> has three parts: the first locked transaction, the
  payment processed with no lock held, and the second locked transaction. A part either
  returns from the function or hands its variables to the next part. The checkout info
  handed on is the object that \<open>fetch_checkout_data\<close> updated in the pre-payment part.
  Other requests run between the first transaction and the payment.
\<close>

datatype ('r, 'c) flow = Return 'r | Proceed 'c

definition first_transaction ::
  "collab \<Rightarrow> string \<Rightarrow> User option \<Rightarrow> string option \<Rightarrow>
   (completion, CheckoutInfo \<times> Payment option \<times> OrderData) flow action" where
  "first_transaction X checkout_pk user' redirect_url =
     transaction_with_commit_on_errors (\<lambda>s.
       case select_checkout_for_update checkout_pk s of
         None \<Rightarrow> (Inr (Return (get_by_checkout_token checkout_pk s, False, [])), s)
       | Some checkout' \<Rightarrow>
           (let lines = fetch_checkout_lines X checkout';
                checkout_info =
                  assign_checkout_user X user' (fetch_checkout_info X checkout' None)
            in bindE (complete_checkout_pre_payment_part X checkout_info lines redirect_url)
                 (\<lambda>(payment, order_data).
               bindE (reserve_stocks_without_availability_check' X
                        (fetch_checkout_data X checkout_info lines) lines) (\<lambda>_.
               returnE (Proceed (fetch_checkout_data X checkout_info lines, payment,
                                 order_data)))) s))"

definition unlocked_payment ::
  "collab \<Rightarrow> Payment option \<Rightarrow> OrderData \<Rightarrow> (Transaction option \<times> Payment option) action" where
  "unlocked_payment X payment order_data =
     (case payment of
        None \<Rightarrow> returnE (None, None)
      | Some p \<Rightarrow>
          bindE (process_payment' X p order_data) (\<lambda>(txn, p1).
          (let p2 = refresh_from_db X p1
           in if payment_is_active p2 then returnE (Some txn, Some p2)
              else bindE (liftS (payment_refund_or_void (Some p2))) (\<lambda>_.
                   raiseE (ValidationError INACTIVE_PAYMENT)))))"

definition second_transaction ::
  "collab \<Rightarrow> CheckoutInfo \<Rightarrow> Payment option \<Rightarrow> Transaction option \<Rightarrow> OrderData \<Rightarrow>
   completion action" where
  "second_transaction X checkout_info payment txn order_data =
     transaction_with_commit_on_errors (\<lambda>s.
       case select_checkout_for_update (token (checkout checkout_info)) s of
         None \<Rightarrow>
           (Inr (get_by_checkout_token (token (checkout checkout_info)) s, False, []), s)
       | Some checkout' \<Rightarrow>
           (let lines = fetch_checkout_lines X checkout';
                checkout_info1 = fetch_checkout_info X checkout' None;
                checkout_info2 =
                  checkout_info1\<lparr>checkout := (checkout checkout_info1)\<lparr>voucher_code := None\<rparr>\<rparr>
            in complete_checkout_post_payment_part X checkout_info2 lines payment txn
                 order_data s))"

definition complete_checkout_with_payment ::
  "collab \<Rightarrow> string \<Rightarrow> User option \<Rightarrow> string option \<Rightarrow> completion action" where
  "complete_checkout_with_payment X checkout_pk user' redirect_url =
     bindE (first_transaction X checkout_pk user' redirect_url) (\<lambda>r.
     case r of
       Return result \<Rightarrow> returnE result
     | Proceed (checkout_info, payment, order_data) \<Rightarrow>
         bindE (liftS (other_workers X)) (\<lambda>_.
         bindE (unlocked_payment X payment order_data) (\<lambda>(txn, payment').
         second_transaction X checkout_info payment' txn order_data)))"

subsection \<open>The entry point\<close>

definition complete_checkout ::
  "collab \<Rightarrow> CheckoutInfo \<Rightarrow> CheckoutLineInfo list \<Rightarrow> User option \<Rightarrow> string option \<Rightarrow>
   completion action" where
  "complete_checkout X checkout_info0 lines user' redirect_url =
     (let transactions = payment_transactions (checkout checkout_info0);
          checkout_info = fetch_checkout_data X checkout_info0 lines;
          checkout_is_zero = (amount (gross (checkout_total (checkout checkout_info))) = 0);
          is_transaction_flow =
            (order_mark_as_paid_strategy (channel checkout_info) = TRANSACTION_FLOW)
      in if exists_rows transactions
            \<or> allow_unpaid_orders (channel checkout_info)
            \<or> checkout_is_zero \<and> is_transaction_flow
         then bindE (complete_checkout_with_transaction X checkout_info lines user' redirect_url)
                (\<lambda>order. returnE (order, False, []))
         else complete_checkout_with_payment X (token (checkout checkout_info)) user'
                redirect_url)"

subsection \<open>Predicates on the database\<close>



definition rows ::
  "db \<Rightarrow> Checkout list \<times> Order list \<times> nat \<times> OrderDiscount list \<times> OrderLine list
        \<times> OrderLineDiscount list \<times> Reservation list \<times> nat list" where
  "rows s =
     (checkouts s, orders s, next_order_pk s, order_discounts s, order_lines s,
      order_line_discounts s, reservations s, paid_orders s)"

text \<open>A line has stock when the stock query returned a row for its variant.\<close>

definition has_stock_row :: "Stock list \<Rightarrow> CheckoutLineInfo \<Rightarrow> bool" where
  "has_stock_row stocks l = (variant_id (variant l) \<in> product_variant_id ` set stocks)"



text \<open>The usage counters after one increase, and after one release, for a voucher.\<close>

definition usage_after_increase :: "Voucher option \<Rightarrow> (string \<Rightarrow> int) \<Rightarrow> string \<Rightarrow> int" where
  "usage_after_increase v f =
     (case v of
        None \<Rightarrow> f
      | Some v' \<Rightarrow> if has_usage_limit v' then f(code v' := f (code v') + 1) else f)"

definition usage_after_release :: "Voucher option \<Rightarrow> (string \<Rightarrow> int) \<Rightarrow> string \<Rightarrow> int" where
  "usage_after_release v f =
     (case v of
        None \<Rightarrow> f
      | Some v' \<Rightarrow> if has_usage_limit v' then f(code v' := f (code v') - 1) else f)"

subsection \<open>Example data\<close>

text \<open>
  A checkout with one line (3 shirts at 10 USD undiscounted, 8 USD gross and 6 USD net
  after discounts), a usage-limited voucher and collaborators that accept everything.
  The examples below vary one field at a time.
\<close>

definition usd :: "rat \<Rightarrow> Money" where
  "usd a = \<lparr>amount = a, currency = ''USD''\<rparr>"

definition example_channel :: Channel where
  "example_channel =
     \<lparr>slug = ''default'', is_active = True, automatically_confirm_all_new_orders = True,
      allow_unpaid_orders = False, order_mark_as_paid_strategy = PAYMENT_FLOW\<rparr>"

definition example_voucher :: Voucher where
  "example_voucher = \<lparr>code = ''SAVE'', usage_limit = Some 10, apply_once_per_customer = False\<rparr>"

definition example_checkout :: Checkout where
  "example_checkout =
     \<lparr>token = ''t1'', checkout_user = None, email = Some ''a@b.c'',
      voucher_code = Some ''SAVE'', discount_amount = 5, discount_name = None,
      translated_discount_name = None, checkout_currency = ''USD'',
      checkout_total = \<lparr>net = usd 20, gross = usd 25\<rparr>, authorize_status = NONE,
      payment_transactions = [], tax_exemption = False, language_code = ''pl''\<rparr>"

definition example_info :: CheckoutInfo where
  "example_info =
     \<lparr>checkout = example_checkout, channel = example_channel,
      voucher = Some example_voucher, user = None, prices_entered_with_tax = True,
      warehouse_pk = None\<rparr>"

definition example_line :: CheckoutLineInfo where
  "example_line =
     \<lparr>line = \<lparr>line_pk = 1, quantity = 3\<rparr>,
      variant = \<lparr>variant_id = 7, variant_str = ''Blue'', sku = Some ''SKU7''\<rparr>,
      product = \<lparr>product_id = 4, product_str = ''Shirt''\<rparr>,
      line_voucher = Some example_voucher,
      promotion_discounts = [\<lparr>promotion_rule = 2, line_discount_amount = 1\<rparr>],
      rules_info = [\<lparr>sale_id = Some 9, promotion_discount_reason = ''Promotion: 9''\<rparr>]\<rparr>"

definition example_prices :: LinePrices where
  "example_prices =
     \<lparr>calc_base_unit_price = usd 8,
      calc_undiscounted_base_unit_price = usd 10,
      calc_undiscounted_base_total_price = usd 30,
      calc_total_line_price = \<lparr>net = usd 18, gross = usd 24\<rparr>,
      calc_unit_price = \<lparr>net = usd 6, gross = usd 8\<rparr>,
      calc_tax_rate = 1 / 3\<rparr>"

definition example_payment :: Payment where
  "example_payment =
     \<lparr>payment_pk = 11, to_confirm = False, payment_is_active = True,
      payment_transactions_of = []\<rparr>"

definition example_txn :: Transaction where
  "example_txn = \<lparr>is_success = True, action_required = False, action_required_data = []\<rparr>"

definition example_collab :: collab where
  "example_collab =
     \<lparr>get_voucher_for_checkout_info = voucher,
      check_stock_and_preorder_quantity_bulk = (\<lambda>_ _. True),
      validate_gift_cards' = (\<lambda>_. True),
      preprocess_order_creation = (\<lambda>_ _. True),
      allocate_stocks = (\<lambda>_ _. True),
      allocate_preorders = (\<lambda>_ _. True),
      add_gift_cards_to_order = (\<lambda>_ _. True),
      clean_checkout_payment = (\<lambda>_ _. None),
      clean_checkout_shipping = (\<lambda>_. None),
      clean_billing_address = (\<lambda>_. None),
      validate_storefront_url = (\<lambda>_. True),
      recalculated_total = (\<lambda>ci _. checkout_total (checkout ci)),
      fetch_checkout_lines = (\<lambda>_. [example_line]),
      load_checkout_info = (\<lambda>_ _. example_info),
      retrieve_user_by_email = (\<lambda>_. None),
      get_last_active_payment = (\<lambda>_. Some example_payment),
      gateway_confirm = (\<lambda>_. Some example_txn),
      gateway_process_payment = (\<lambda>_. Some example_txn),
      refresh_from_db = (\<lambda>p. p),
      line_prices = (\<lambda>_ _. example_prices),
      calculate_checkout_total_with_gift_cards = (\<lambda>ci _. checkout_total (checkout ci)),
      checkout_shipping_price = (\<lambda>_ _. \<lparr>net = usd 2, gross = usd 2\<rparr>),
      checkout_subtotal = (\<lambda>_ _. \<lparr>net = usd 18, gross = usd 24\<rparr>),
      product_translations = (\<lambda>_. [4 \<mapsto> Some ''Shirt'']),
      variant_translations = (\<lambda>_. Map.empty),
      get_variants_stocks_for_country = (\<lambda>_ _. [\<lparr>stock_pk = 1, product_variant_id = 7\<rparr>]),
      now = (\<lambda>k. 1000 + int k),
      RESERVE_DURATION = 45,
      other_workers = (\<lambda>s. s)\<rparr>"

definition example_db :: db where
  "example_db =
     \<lparr>checkouts = [example_checkout], orders = [], next_order_pk = 0, order_discounts = [],
      order_lines = [], order_line_discounts = [], reservations = [],
      voucher_used = (\<lambda>_. 0), voucher_customers = [], paid_orders = [],
      gateway_calls = []\<rparr>"

definition example_order_data :: OrderData where
  "example_order_data =
     \<lparr>od_lines = [], od_total = \<lparr>net = usd 0, gross = usd 0\<rparr>,
      od_undiscounted_total = \<lparr>net = usd 0, gross = usd 0\<rparr>,
      od_voucher = Some example_voucher, od_user_email = Some ''a@b.c'',
      od_total_price_left = usd 0\<rparr>"



text \<open>The example checkout with a payment transaction that authorizes it in full.\<close>

definition example_checkout_authorized :: Checkout where
  "example_checkout_authorized =
     example_checkout\<lparr>payment_transactions := [1], authorize_status := FULL\<rparr>"

definition example_info_authorized :: CheckoutInfo where
  "example_info_authorized = example_info\<lparr>checkout := example_checkout_authorized\<rparr>"

definition example_db_authorized :: db where
  "example_db_authorized = example_db\<lparr>checkouts := [example_checkout_authorized]\<rparr>"

text \<open>
  The same checkout with a voucher that a customer may use once, and the databases in
  which the customer's use of it is registered.
\<close>

definition example_voucher_once :: Voucher where
  "example_voucher_once = example_voucher\<lparr>apply_once_per_customer := True\<rparr>"

definition example_info_once :: CheckoutInfo where
  "example_info_once = example_info\<lparr>voucher := Some example_voucher_once\<rparr>"

definition example_db_once :: db where
  "example_db_once = example_db\<lparr>voucher_customers := [(''SAVE'', Some ''a@b.c'')]\<rparr>"


section \<open>Properties\<close>

subsection \<open>Reasoning about actions\<close>

lemma returnE_eq [simp]: "(returnE v s = (r, s')) = (r = Inr v \<and> s' = s)"
  by (auto simp: returnE_def)

lemma raiseE_eq [simp]: "(raiseE e s = (r, s')) = (r = Inl e \<and> s' = s)"
  by (auto simp: raiseE_def)

lemma liftS_eq [simp]: "(liftS f s = (r, s')) = (r = Inr () \<and> s' = f s)"
  by (auto simp: liftS_def)

lemma liftV_eq [simp]: "(liftV x s = (r, s')) = (x = r \<and> s' = s)"
  by (auto simp: liftV_def)

lemma require_eq [simp]:
  "(require ok e s = (r, s')) = (s' = s \<and> (if ok then r = Inr () else r = Inl e))"
  by (auto simp: require_def)

lemma validate_eq [simp]:
  "(validate c s = (r, s')) =
     (s' = s \<and> (case c of None \<Rightarrow> r = Inr () | Some k \<Rightarrow> r = Inl (ValidationError k)))"
  by (auto simp: validate_def split: option.splits)

lemma bindE_E:
  assumes "bindE m f s = (r, s')"
  obtains (fail) e where "m s = (Inl e, s')" "r = Inl e"
        | (ok) v s1 where "m s = (Inr v, s1)" "f v s1 = (r, s')"
  using assms by (auto simp: bindE_def split: prod.splits sum.splits)

lemma catchE_E:
  assumes "catchE m h s = (r, s')"
  obtains (handled) e s1 where "m s = (Inl e, s1)" "h e s1 = (r, s')"
        | (ok) v where "m s = (Inr v, s')" "r = Inr v"
  using assms by (auto simp: catchE_def split: prod.splits sum.splits)

lemma atomic_E:
  assumes "atomic m s = (r, s')"
  obtains (rolled_back) e s1 where "m s = (Inl e, s1)" "r = Inl e" "s' = rollback s s1"
        | (committed) v where "m s = (Inr v, s')" "r = Inr v"
  using assms by (auto simp: atomic_def split: prod.splits sum.splits)

subsection \<open>Order materialization\<close>

lemma create_order'_new:
  assumes none: "find (\<lambda>order. checkout_token order = token (checkout ci)) (orders s) = None"
    and run: "create_order' X ci ls od s = (Inr order, s')"
  shows "order = \<lparr>order_pk = next_order_pk s,
                  checkout_token = token (checkout ci),
                  status = (if automatically_confirm_all_new_orders (channel ci)
                            then UNFULFILLED else UNCONFIRMED),
                  origin = CHECKOUT,
                  order_channel = channel ci,
                  order_total = od_total od,
                  order_voucher = od_voucher od,
                  order_user_email = od_user_email od,
                  should_refresh_prices = False,
                  order_tax_exemption = tax_exemption (checkout ci)\<rparr>"
    and "s' = bulk_create_lines (next_order_pk s) (od_lines od)
                (handle_checkout_discount' order (checkout ci) (insert_order order s))"
  using run none unfolding create_order'_def Let_def
  by (auto elim!: atomic_E bindE_E split: if_splits)

lemma create_order'_existing:
  assumes "find (\<lambda>order. checkout_token order = token (checkout ci)) (orders s) = Some order"
  shows "create_order' X ci ls od s = (Inr order, s)"
  using assms by (simp add: create_order'_def Let_def atomic_def)

lemma create_order'_failed:
  assumes "create_order' X ci ls od s = (Inl e, s')"
  shows "s' = s \<and> (e = InsufficientStock \<or> e = GiftCardNotApplicable)"
  using assms unfolding create_order'_def Let_def
  by (auto elim!: atomic_E bindE_E split: if_splits option.splits
      simp: rollback_def insert_order_def handle_checkout_discount'_def bulk_create_lines_def)

subsection \<open>Running the model on the example data\<close>

lemmas action_defs =
  returnE_def raiseE_def bindE_def catchE_def liftS_def liftV_def require_def validate_def
  atomic_def rollback_def transaction_with_commit_on_errors_def

lemmas ledger_defs =
  increase_voucher_usage_def decrease_voucher_usage_def add_voucher_usage_by_customer_def
  remove_voucher_usage_by_customer_def release_voucher_usage_def has_usage_limit_def
  truthy_str_def payment_refund_or_void_def mark_order_as_paid_with_payment_def
  get_by_checkout_token_def select_checkout_for_update_def delete_checkout_def
  get_customer_email_def checkout_get_customer_email_def

lemmas money_defs =
  money_sub_def money_add_def taxed_money_sub_def taxed_money_add_def
  taxed_money_sub_money_def zero_taxed_money_def discount_def

lemmas line_defs =
  create_line_for_order'_def create_order_line_discounts'_def dict_get_or_empty_def
  create_lines_for_order'_def undiscounted_total_of_def total_price_left_of_def

lemmas flow_defs =
  fetch_checkout_data_def fetch_checkout_info_def process_voucher_data_for_order'_def
  prepare_order_data'_def get_order_data'_def prepare_checkout'_def
  prepare_checkout_with_transactions'_def prepare_checkout_with_payment'_def
  insert_order_def handle_checkout_discount'_def bulk_create_lines_def create_order'_def
  create_order_lines_from_checkout_lines'_def handle_allocations_of_order_lines'_def
  exists_rows_def create_order_from_checkout'_def assign_checkout_user_def
  increase_voucher_usage'_def create_order_from_checkout_def
  complete_checkout_with_transaction_def variants_stocks_map_def
  reserve_stocks_without_availability_check'_def call_gateway_def process_payment'_def
  refund_and_reraise_def complete_checkout_pre_payment_part_def is_refund_ongoing'_def
  complete_checkout_post_payment_part_def first_transaction_def unlocked_payment_def
  second_transaction_def complete_checkout_with_payment_def complete_checkout_def

lemmas example_defs =
  usd_def example_channel_def example_voucher_def example_checkout_def example_info_def
  example_line_def example_prices_def example_payment_def example_txn_def
  example_collab_def example_db_def example_order_data_def

subsection \<open>Order lines\<close>

lemma create_line_for_order'_fields:
  assumes "create_line_for_order' checkout_info cli prices pt vt pewt = Inr oli"
  shows "\<exists>dp. taxed_money_sub
                \<lparr>net = calc_undiscounted_base_unit_price prices,
                 gross = calc_undiscounted_base_unit_price prices\<rparr>
                (calc_unit_price prices) = Inr dp
            \<and> unit_discount (oli_line oli) = (if pewt then gross dp else net dp)
            \<and> unit_discount_value (oli_line oli) = amount (if pewt then gross dp else net dp)
            \<and> unit_price (oli_line oli) = calc_unit_price prices
            \<and> undiscounted_unit_price (oli_line oli) =
                \<lparr>net = calc_undiscounted_base_unit_price prices,
                 gross = calc_undiscounted_base_unit_price prices\<rparr>
            \<and> product_name (oli_line oli) = product_str (product cli)
            \<and> variant_name (oli_line oli) = variant_str (variant cli)
            \<and> translated_product_name (oli_line oli) =
                (if dict_get_or_empty pt (product_id (product cli)) = Some (product_str (product cli))
                 then Some [] else dict_get_or_empty pt (product_id (product cli)))
            \<and> translated_variant_name (oli_line oli) =
                (if dict_get_or_empty vt (variant_id (variant cli)) = Some (variant_str (variant cli))
                 then Some [] else dict_get_or_empty vt (variant_id (variant cli)))"
proof (cases "taxed_money_sub
                \<lparr>net = calc_undiscounted_base_unit_price prices,
                 gross = calc_undiscounted_base_unit_price prices\<rparr>
                (calc_unit_price prices)")
  case (Inl e)
  with assms show ?thesis by (simp add: create_line_for_order'_def Let_def)
next
  case (Inr dp)
  show ?thesis
  proof (cases "promotion_discounts cli = []")
    case True
    with assms Inr show ?thesis
      by (simp add: create_line_for_order'_def Let_def create_order_line_discounts'_def) auto
  next
    case False
    show ?thesis
    proof (cases "rules_info cli")
      case Nil
      with assms Inr False show ?thesis
        by (simp add: create_line_for_order'_def Let_def create_order_line_discounts'_def)
    next
      case (Cons p ps)
      with assms Inr False show ?thesis
        by (simp add: create_line_for_order'_def Let_def create_order_line_discounts'_def) auto
    qed
  qed
qed

lemma taxed_money_sub_amounts:
  assumes "taxed_money_sub a b = Inr d"
  shows "amount (net d) = amount (net a) - amount (net b)"
    and "amount (gross d) = amount (gross a) - amount (gross b)"
  using assms
  by (auto simp: taxed_money_sub_def money_sub_def split: sum.splits if_splits)

lemma example_line_created:
  "\<exists>oli. create_line_for_order' example_info example_line example_prices
            [4 \<mapsto> Some ''Shirt''] Map.empty True = Inr oli"
  by (simp add: create_line_for_order'_def Let_def example_line_def example_prices_def
      example_info_def usd_def taxed_money_sub_def money_sub_def dict_get_or_empty_def
      create_order_line_discounts'_def example_voucher_def)

text \<open>
  C7. Every order line built by \<open>_create_line_for_order\<close> stores as its unit discount the
  undiscounted unit price minus the unit price, both taken gross when the channel enters
  prices with tax and net otherwise, whatever discounts (voucher, promotion, both, none)
  the checkout line carries; \<open>unit_discount_value\<close> is the amount of that discount.
\<close>

theorem discount_arithmetic:
  assumes "create_line_for_order' checkout_info checkout_line_info prices pt vt pewt = Inr oli"
  shows "amount (unit_discount (oli_line oli)) =
           amount ((if pewt then gross else net) (undiscounted_unit_price (oli_line oli)))
         - amount ((if pewt then gross else net) (unit_price (oli_line oli)))
       \<and> unit_discount_value (oli_line oli) = amount (unit_discount (oli_line oli))"
proof -
  from create_line_for_order'_fields [OF assms] obtain dp where
    sub: "taxed_money_sub
            \<lparr>net = calc_undiscounted_base_unit_price prices,
             gross = calc_undiscounted_base_unit_price prices\<rparr>
            (calc_unit_price prices) = Inr dp"
    and ud: "unit_discount (oli_line oli) = (if pewt then gross dp else net dp)"
    and uv: "unit_discount_value (oli_line oli) = amount (if pewt then gross dp else net dp)"
    and up: "unit_price (oli_line oli) = calc_unit_price prices"
    and uu: "undiscounted_unit_price (oli_line oli) =
              \<lparr>net = calc_undiscounted_base_unit_price prices,
               gross = calc_undiscounted_base_unit_price prices\<rparr>"
    by blast
  from taxed_money_sub_amounts [OF sub] ud uv up uu show ?thesis by simp
qed

theorem discount_arithmetic_witness:
  "\<exists>oli. create_line_for_order' example_info example_line example_prices
            [4 \<mapsto> Some ''Shirt''] Map.empty True = Inr oli
        \<and> amount (gross (undiscounted_unit_price (oli_line oli))) = 10
        \<and> amount (gross (unit_price (oli_line oli))) = 8
        \<and> amount (unit_discount (oli_line oli)) = 2
        \<and> unit_discount_value (oli_line oli) = 2"
proof -
  from example_line_created obtain oli where
    r: "create_line_for_order' example_info example_line example_prices
          [4 \<mapsto> Some ''Shirt''] Map.empty True = Inr oli"
    by blast
  from create_line_for_order'_fields [OF r]
  have "unit_price (oli_line oli) = calc_unit_price example_prices"
    and "undiscounted_unit_price (oli_line oli) =
              \<lparr>net = calc_undiscounted_base_unit_price example_prices,
               gross = calc_undiscounted_base_unit_price example_prices\<rparr>"
    by blast+
  with discount_arithmetic [OF r] r show ?thesis
    by (auto simp: example_prices_def usd_def)
qed

text \<open>
  C9. The stored product and variant names are the canonical ones. A translated name
  equal to the canonical name is stored as the empty string, and so is a missing
  translation; hence a stored translated name that equals the canonical name can only be
  the empty string.
\<close>

theorem translation_fallback:
  assumes "create_line_for_order' checkout_info checkout_line_info prices pt vt pewt = Inr oli"
  shows "product_name (oli_line oli) = product_str (product checkout_line_info)
       \<and> variant_name (oli_line oli) = variant_str (variant checkout_line_info)
       \<and> (pt (product_id (product checkout_line_info))
            = Some (Some (product_str (product checkout_line_info)))
          \<longrightarrow> translated_product_name (oli_line oli) = Some [])
       \<and> (vt (variant_id (variant checkout_line_info))
            = Some (Some (variant_str (variant checkout_line_info)))
          \<longrightarrow> translated_variant_name (oli_line oli) = Some [])
       \<and> (pt (product_id (product checkout_line_info)) = None
          \<longrightarrow> translated_product_name (oli_line oli) = Some [])
       \<and> (vt (variant_id (variant checkout_line_info)) = None
          \<longrightarrow> translated_variant_name (oli_line oli) = Some [])
       \<and> (translated_product_name (oli_line oli) = Some (product_name (oli_line oli))
          \<longrightarrow> translated_product_name (oli_line oli) = Some [])
       \<and> (translated_variant_name (oli_line oli) = Some (variant_name (oli_line oli))
          \<longrightarrow> translated_variant_name (oli_line oli) = Some [])"
proof -
  from create_line_for_order'_fields [OF assms] have
    pn: "product_name (oli_line oli) = product_str (product checkout_line_info)"
    and vn: "variant_name (oli_line oli) = variant_str (variant checkout_line_info)"
    and tp: "translated_product_name (oli_line oli) =
              (if dict_get_or_empty pt (product_id (product checkout_line_info))
                    = Some (product_str (product checkout_line_info))
               then Some [] else dict_get_or_empty pt (product_id (product checkout_line_info)))"
    and tv: "translated_variant_name (oli_line oli) =
              (if dict_get_or_empty vt (variant_id (variant checkout_line_info))
                    = Some (variant_str (variant checkout_line_info))
               then Some [] else dict_get_or_empty vt (variant_id (variant checkout_line_info)))"
    by blast+
  show ?thesis
    unfolding pn vn tp tv by (simp add: dict_get_or_empty_def)
qed

theorem translation_fallback_witness:
  "\<exists>oli. create_line_for_order' example_info example_line example_prices
            [4 \<mapsto> Some ''Shirt''] Map.empty True = Inr oli
        \<and> product_name (oli_line oli) = ''Shirt''
        \<and> variant_name (oli_line oli) = ''Blue''
        \<and> translated_product_name (oli_line oli) = Some []
        \<and> translated_variant_name (oli_line oli) = Some []"
proof -
  from example_line_created obtain oli where
    r: "create_line_for_order' example_info example_line example_prices
          [4 \<mapsto> Some ''Shirt''] Map.empty True = Inr oli"
    by blast
  from translation_fallback [OF r] r show ?thesis
    by (auto simp: example_line_def)
qed

subsection \<open>Order status\<close>

lemma create_order_from_checkout'_ok:
  assumes "create_order_from_checkout' X ci ls s = (Inr order, s')"
  shows "order = \<lparr>order_pk = next_order_pk s,
                  checkout_token = token (checkout ci),
                  status = (if automatically_confirm_all_new_orders (channel ci)
                               \<and> exists_rows (payment_transactions (checkout ci))
                            then UNFULFILLED else UNCONFIRMED),
                  origin = CHECKOUT,
                  order_channel = channel ci,
                  order_total = calculate_checkout_total_with_gift_cards X ci ls,
                  order_voucher = voucher ci,
                  order_user_email = get_customer_email ci,
                  should_refresh_prices = False,
                  order_tax_exemption = tax_exemption (checkout ci)\<rparr>"
    and "\<exists>ols. create_lines_for_order' X ci ls (prices_entered_with_tax ci) = Inr ols
           \<and> s' = bulk_create_lines (next_order_pk s) ols
                    (handle_checkout_discount' order (checkout ci) (insert_order order s))"
  using assms
  unfolding create_order_from_checkout'_def create_order_lines_from_checkout_lines'_def
    handle_allocations_of_order_lines'_def Let_def
  by (auto elim!: bindE_E split: if_splits)

lemma orders_after_create [simp]:
  "orders (bulk_create_lines pk ols (handle_checkout_discount' order co (insert_order order s)))
     = orders s @ [order]"
  by (simp add: bulk_create_lines_def handle_checkout_discount'_def insert_order_def)

lemma checkouts_after_create [simp]:
  "checkouts (bulk_create_lines pk ols (handle_checkout_discount' order co (insert_order order s)))
     = checkouts s"
  by (simp add: bulk_create_lines_def handle_checkout_discount'_def insert_order_def)

lemma order_discounts_after_create [simp]:
  "order_discounts (bulk_create_lines pk ols (handle_checkout_discount' order co (insert_order order s)))
     = order_discounts s @
         (if discount_amount co = 0 then []
          else [\<lparr>discount_order_id = order_pk order, discount_type = VOUCHER,
                  value_type = FIXED, discount_value = discount_amount co,
                  od_name = discount_name co,
                  od_translated_name = translated_discount_name co,
                  od_currency = checkout_currency co,
                  amount_value = discount_amount co\<rparr>])"
  by (simp add: bulk_create_lines_def handle_checkout_discount'_def insert_order_def discount_def)

text \<open>
  C6. A created order is Unfulfilled when the channel automatically confirms new orders
  (in the transaction-flow materializer only if the checkout also has a payment
  transaction) and Unconfirmed otherwise, in both materializers.
\<close>

theorem order_status_decision:
  "(find (\<lambda>order. checkout_token order = token (checkout ci)) (orders s) = None
      \<and> create_order' X ci ls od s = (Inr order, s')
    \<longrightarrow> orders s' = orders s @ [order]
        \<and> status order = (if automatically_confirm_all_new_orders (channel ci)
                           then UNFULFILLED else UNCONFIRMED))
   \<and> (create_order_from_checkout' X ci2 ls2 s2 = (Inr order2, s2')
    \<longrightarrow> orders s2' = orders s2 @ [order2]
        \<and> status order2 = (if automatically_confirm_all_new_orders (channel ci2)
                               \<and> payment_transactions (checkout ci2) \<noteq> []
                            then UNFULFILLED else UNCONFIRMED))"
proof (intro conjI impI)
  assume a: "find (\<lambda>order. checkout_token order = token (checkout ci)) (orders s) = None
      \<and> create_order' X ci ls od s = (Inr order, s')"
  then have none: "find (\<lambda>order. checkout_token order = token (checkout ci)) (orders s) = None"
    and run: "create_order' X ci ls od s = (Inr order, s')" by simp_all
  show "orders s' = orders s @ [order]"
    using create_order'_new(2) [OF none run] by simp
  show "status order = (if automatically_confirm_all_new_orders (channel ci)
                           then UNFULFILLED else UNCONFIRMED)"
    using create_order'_new(1) [OF none run] by simp
next
  assume run: "create_order_from_checkout' X ci2 ls2 s2 = (Inr order2, s2')"
  show "orders s2' = orders s2 @ [order2]"
    using create_order_from_checkout'_ok(2) [OF run] by auto
  show "status order2 = (if automatically_confirm_all_new_orders (channel ci2)
                               \<and> payment_transactions (checkout ci2) \<noteq> []
                            then UNFULFILLED else UNCONFIRMED)"
    using create_order_from_checkout'_ok(1) [OF run] by (simp add: exists_rows_def)
qed

lemma example_create_order':
  "\<exists>order s'. create_order' example_collab example_info [example_line] example_order_data
                 example_db = (Inr order, s')"
  by (simp add: action_defs flow_defs example_defs Let_def)

lemma example_create_order_from_checkout':
  "\<exists>order s'. create_order_from_checkout' example_collab example_info [example_line]
                 example_db = (Inr order, s')"
  by (simp add: action_defs flow_defs line_defs money_defs ledger_defs example_defs Let_def)

theorem order_status_decision_witness:
  "(\<exists>order s'. create_order' example_collab example_info [example_line] example_order_data
                  example_db = (Inr order, s')
               \<and> orders s' = [order] \<and> status order = UNFULFILLED)
   \<and> (\<exists>order2 s2'. create_order_from_checkout' example_collab example_info [example_line]
                      example_db = (Inr order2, s2')
               \<and> orders s2' = [order2] \<and> status order2 = UNCONFIRMED)"
proof -
  from example_create_order' obtain order s' where
    r1: "create_order' example_collab example_info [example_line] example_order_data
           example_db = (Inr order, s')" by blast
  from example_create_order_from_checkout' obtain order2 s2' where
    r2: "create_order_from_checkout' example_collab example_info [example_line]
           example_db = (Inr order2, s2')" by blast
  have none: "find (\<lambda>order. checkout_token order = token (checkout example_info))
                (orders example_db) = None"
    by (simp add: example_db_def)
  from order_status_decision [where ci = example_info and s = example_db
      and X = example_collab and ls = "[example_line]" and od = example_order_data
      and order = order and s' = s' and ?ci2.0 = example_info and ?ls2.0 = "[example_line]"
      and ?s2.0 = example_db and ?order2.0 = order2 and s2' = s2'] none r1 r2
  have "orders s' = orders example_db @ [order]
        \<and> status order = (if automatically_confirm_all_new_orders (channel example_info)
                           then UNFULFILLED else UNCONFIRMED)"
    and "orders s2' = orders example_db @ [order2]
        \<and> status order2 = (if automatically_confirm_all_new_orders (channel example_info)
                               \<and> payment_transactions (checkout example_info) \<noteq> []
                            then UNFULFILLED else UNCONFIRMED)"
    by blast+
  then have "orders s' = [order] \<and> status order = UNFULFILLED"
    and "orders s2' = [order2] \<and> status order2 = UNCONFIRMED"
    by (simp_all add: example_defs)
  then show ?thesis
    using r1 r2 by (intro conjI exI [where x = order] exI [where x = s']
        exI [where x = order2] exI [where x = s2']) simp_all
qed

subsection \<open>The order-level discount\<close>

text \<open>
  C10. In both materializers the creation of an order adds an order-level discount
  record exactly when the checkout's discount is not zero; it is then one record, of type
  VOUCHER and value type FIXED, whose value is the checkout's discount amount (also for a
  percentage voucher: nothing but the amount is read).
\<close>

theorem order_level_discount:
  "(find (\<lambda>order. checkout_token order = token (checkout ci)) (orders s) = None
      \<and> create_order' X ci ls od s = (Inr order, s')
    \<longrightarrow> order_discounts s' = order_discounts s @
          (if discount_amount (checkout ci) = 0 then []
           else [\<lparr>discount_order_id = order_pk order, discount_type = VOUCHER,
                   value_type = FIXED, discount_value = discount_amount (checkout ci),
                   od_name = discount_name (checkout ci),
                   od_translated_name = translated_discount_name (checkout ci),
                   od_currency = checkout_currency (checkout ci),
                   amount_value = discount_amount (checkout ci)\<rparr>]))
   \<and> (create_order_from_checkout' X ci2 ls2 s2 = (Inr order2, s2')
    \<longrightarrow> order_discounts s2' = order_discounts s2 @
          (if discount_amount (checkout ci2) = 0 then []
           else [\<lparr>discount_order_id = order_pk order2, discount_type = VOUCHER,
                   value_type = FIXED, discount_value = discount_amount (checkout ci2),
                   od_name = discount_name (checkout ci2),
                   od_translated_name = translated_discount_name (checkout ci2),
                   od_currency = checkout_currency (checkout ci2),
                   amount_value = discount_amount (checkout ci2)\<rparr>]))"
proof (intro conjI impI)
  assume a: "find (\<lambda>order. checkout_token order = token (checkout ci)) (orders s) = None
      \<and> create_order' X ci ls od s = (Inr order, s')"
  then have none: "find (\<lambda>order. checkout_token order = token (checkout ci)) (orders s) = None"
    and run: "create_order' X ci ls od s = (Inr order, s')" by simp_all
  show "order_discounts s' = order_discounts s @
          (if discount_amount (checkout ci) = 0 then []
           else [\<lparr>discount_order_id = order_pk order, discount_type = VOUCHER,
                   value_type = FIXED, discount_value = discount_amount (checkout ci),
                   od_name = discount_name (checkout ci),
                   od_translated_name = translated_discount_name (checkout ci),
                   od_currency = checkout_currency (checkout ci),
                   amount_value = discount_amount (checkout ci)\<rparr>])"
    unfolding create_order'_new(2) [OF none run] by (rule order_discounts_after_create)
next
  assume run: "create_order_from_checkout' X ci2 ls2 s2 = (Inr order2, s2')"
  from create_order_from_checkout'_ok(2) [OF run] obtain ols where
    s2': "s2' = bulk_create_lines (next_order_pk s2) ols
                    (handle_checkout_discount' order2 (checkout ci2) (insert_order order2 s2))"
    by blast
  show "order_discounts s2' = order_discounts s2 @
          (if discount_amount (checkout ci2) = 0 then []
           else [\<lparr>discount_order_id = order_pk order2, discount_type = VOUCHER,
                   value_type = FIXED, discount_value = discount_amount (checkout ci2),
                   od_name = discount_name (checkout ci2),
                   od_translated_name = translated_discount_name (checkout ci2),
                   od_currency = checkout_currency (checkout ci2),
                   amount_value = discount_amount (checkout ci2)\<rparr>])"
    unfolding s2' by (rule order_discounts_after_create)
qed

theorem order_level_discount_witness:
  "(\<exists>order s'. create_order' example_collab example_info [example_line] example_order_data
                  example_db = (Inr order, s')
               \<and> map discount_type (order_discounts s') = [VOUCHER]
               \<and> map value_type (order_discounts s') = [FIXED]
               \<and> map discount_value (order_discounts s') = [5])
   \<and> (\<exists>order2 s2'. create_order_from_checkout' example_collab example_info [example_line]
                      example_db = (Inr order2, s2')
               \<and> map discount_type (order_discounts s2') = [VOUCHER]
               \<and> map value_type (order_discounts s2') = [FIXED]
               \<and> map discount_value (order_discounts s2') = [5])"
proof -
  from example_create_order' obtain order s' where
    r1: "create_order' example_collab example_info [example_line] example_order_data
           example_db = (Inr order, s')" by blast
  from example_create_order_from_checkout' obtain order2 s2' where
    r2: "create_order_from_checkout' example_collab example_info [example_line]
           example_db = (Inr order2, s2')" by blast
  have none: "find (\<lambda>order. checkout_token order = token (checkout example_info))
                (orders example_db) = None"
    by (simp add: example_db_def)
  from order_level_discount [where ci = example_info and s = example_db
      and X = example_collab and ls = "[example_line]" and od = example_order_data
      and order = order and s' = s' and ?ci2.0 = example_info and ?ls2.0 = "[example_line]"
      and ?s2.0 = example_db and ?order2.0 = order2 and s2' = s2'] none r1 r2
  have "map discount_type (order_discounts s') = [VOUCHER]
        \<and> map value_type (order_discounts s') = [FIXED]
        \<and> map discount_value (order_discounts s') = [5]"
    and "map discount_type (order_discounts s2') = [VOUCHER]
        \<and> map value_type (order_discounts s2') = [FIXED]
        \<and> map discount_value (order_discounts s2') = [5]"
    by (simp_all add: example_defs)
  then show ?thesis
    using r1 r2 by (intro conjI exI [where x = order] exI [where x = s']
        exI [where x = order2] exI [where x = s2']) simp_all
qed

subsection \<open>The post-payment part\<close>

lemma create_order'_ok:
  assumes "create_order' X ci ls od s = (Inr order, s')"
  shows "(find (\<lambda>order. checkout_token order = token (checkout ci)) (orders s) = Some order
            \<and> s' = s)
       \<or> (find (\<lambda>order. checkout_token order = token (checkout ci)) (orders s) = None
            \<and> order_total order = od_total od \<and> order_channel order = channel ci
            \<and> checkout_token order = token (checkout ci)
            \<and> s' = bulk_create_lines (next_order_pk s) (od_lines od)
                     (handle_checkout_discount' order (checkout ci) (insert_order order s)))"
proof (cases "find (\<lambda>order. checkout_token order = token (checkout ci)) (orders s)")
  case None
  from create_order'_new [OF None assms] None show ?thesis by simp
next
  case (Some existing)
  from create_order'_existing [OF Some, of X ls od] assms Some show ?thesis by simp
qed

lemma paid_orders_after_create [simp]:
  "paid_orders (bulk_create_lines pk ols (handle_checkout_discount' order co (insert_order order s)))
     = paid_orders s"
  by (simp add: bulk_create_lines_def handle_checkout_discount'_def insert_order_def)

lemma post_payment_no_action:
  assumes "\<not> (\<exists>p t. payment = Some p \<and> txn = Some t \<and> action_required t)"
  shows "complete_checkout_post_payment_part X ci ls payment txn od s =
     (if is_refund_ongoing' payment then (Inr (None, False, []), s)
      else (case create_order' X ci ls od s of
              (Inl e, s1) \<Rightarrow>
                (if e = InsufficientStock \<or> e = GiftCardNotApplicable
                 then (Inl (ValidationError (if e = InsufficientStock then INSUFFICIENT_STOCK
                                             else GIFT_CARD_NOT_APPLICABLE)),
                       payment_refund_or_void payment
                         (release_voucher_usage (od_voucher od) (od_user_email od) s1))
                 else (Inl e, s1))
            | (Inr order, s1) \<Rightarrow>
                (Inr (Some order, False, []),
                 (if amount (net (order_total order)) = 0
                     \<and> order_mark_as_paid_strategy (order_channel order) = PAYMENT_FLOW
                  then mark_order_as_paid_with_payment order else (\<lambda>s. s))
                   (delete_checkout (checkout ci) s1))))"
proof -
  have ar: "(case (payment, txn) of (Some p, Some t) \<Rightarrow> action_required t | _ \<Rightarrow> False) = False"
    using assms by (auto split: option.splits)
  have ad: "(case (payment, txn) of
               (Some p, Some t) \<Rightarrow> if action_required t then action_required_data t else []
             | _ \<Rightarrow> []) = []"
    using assms by (auto split: option.splits)
  show ?thesis
    unfolding complete_checkout_post_payment_part_def Let_def ar ad
    by (cases "create_order' X ci ls od s"; cases "fst (create_order' X ci ls od s)")
       (auto simp: bindE_def catchE_def returnE_def raiseE_def liftS_def split: exn.splits)
qed

lemma post_payment_action_required:
  assumes "payment = Some p" "txn = Some t" "action_required t"
  shows "complete_checkout_post_payment_part X ci ls payment txn od s =
     (Inr (None, True, action_required_data t),
      release_voucher_usage (od_voucher od) (od_user_email od) s)"
  using assms
  by (simp add: complete_checkout_post_payment_part_def Let_def bindE_def returnE_def liftS_def)

text \<open>
  C5. When the post-payment part returns an order, it marks that order paid exactly when
  the order's total (net amount) is zero and the order's channel uses the payment-flow
  strategy; with the transaction-flow strategy nothing is marked here. An order this call
  created carries the total of the order data and the channel of the checkout.
\<close>

theorem zero_total_auto_pay:
  assumes "complete_checkout_post_payment_part X ci ls payment txn od s
             = (Inr (Some order, ar, ad), s')"
  shows "paid_orders s' = paid_orders s @
           (if amount (net (order_total order)) = 0
               \<and> order_mark_as_paid_strategy (order_channel order) = PAYMENT_FLOW
            then [order_pk order] else [])
       \<and> (order_mark_as_paid_strategy (order_channel order) = TRANSACTION_FLOW
            \<longrightarrow> paid_orders s' = paid_orders s)
       \<and> (find (\<lambda>order. checkout_token order = token (checkout ci)) (orders s) = None
            \<longrightarrow> order_total order = od_total od \<and> order_channel order = channel ci)"
proof -
  have na: "\<not> (\<exists>p t. payment = Some p \<and> txn = Some t \<and> action_required t)"
  proof
    assume "\<exists>p t. payment = Some p \<and> txn = Some t \<and> action_required t"
    then obtain p t where "payment = Some p" "txn = Some t" "action_required t" by blast
    from post_payment_action_required [OF this, of X ci ls od s] assms show False by simp
  qed
  from assms post_payment_no_action [OF na, of X ci ls od s]
  obtain s1 where run: "create_order' X ci ls od s = (Inr order, s1)"
    and s': "s' = (if amount (net (order_total order)) = 0
                     \<and> order_mark_as_paid_strategy (order_channel order) = PAYMENT_FLOW
                  then mark_order_as_paid_with_payment order else (\<lambda>s. s))
                   (delete_checkout (checkout ci) s1)"
    by (auto split: if_splits prod.splits sum.splits)
  from create_order'_ok [OF run] have p1: "paid_orders s1 = paid_orders s" by auto
  have paid: "paid_orders s' = paid_orders s @
           (if amount (net (order_total order)) = 0
               \<and> order_mark_as_paid_strategy (order_channel order) = PAYMENT_FLOW
            then [order_pk order] else [])"
    unfolding s' using p1
    by (simp add: mark_order_as_paid_with_payment_def delete_checkout_def)
  from create_order'_ok [OF run]
  have new: "find (\<lambda>order. checkout_token order = token (checkout ci)) (orders s) = None
            \<longrightarrow> order_total order = od_total od \<and> order_channel order = channel ci"
    by auto
  from paid new show ?thesis by simp
qed

text \<open>
  C4. In the post-payment part (no further customer action required, no refund ongoing),
  when order materialization fails with InsufficientStock or with a gift-card rejection,
  the result is an error and the database is the one before the call with the voucher
  usage released and a refund-or-void issued on the payment when there is one: no order
  is created or returned.
\<close>

theorem post_payment_compensation:
  assumes "fst (create_order' X ci ls od s) = Inl e"
    and "e = InsufficientStock \<or> e = GiftCardNotApplicable"
    and "\<not> (\<exists>p t. payment = Some p \<and> txn = Some t \<and> action_required t)"
    and "\<not> is_refund_ongoing' payment"
  shows "complete_checkout_post_payment_part X ci ls payment txn od s =
           (Inl (ValidationError (if e = InsufficientStock then INSUFFICIENT_STOCK
                                  else GIFT_CARD_NOT_APPLICABLE)),
            payment_refund_or_void payment
              (release_voucher_usage (od_voucher od) (od_user_email od) s))
       \<and> orders (payment_refund_or_void payment
              (release_voucher_usage (od_voucher od) (od_user_email od) s)) = orders s
       \<and> gateway_calls (payment_refund_or_void payment
              (release_voucher_usage (od_voucher od) (od_user_email od) s)) =
           gateway_calls s @
             (case payment of None \<Rightarrow> [] | Some p \<Rightarrow> [RefundOrVoid (payment_pk p)])
       \<and> voucher_used (payment_refund_or_void payment
              (release_voucher_usage (od_voucher od) (od_user_email od) s)) =
           (case od_voucher od of
              None \<Rightarrow> voucher_used s
            | Some v \<Rightarrow>
                if has_usage_limit v
                then (voucher_used s)(code v := voucher_used s (code v) - 1)
                else voucher_used s)"
proof -
  obtain s1 where run: "create_order' X ci ls od s = (Inl e, s1)"
    using assms(1) by (cases "create_order' X ci ls od s") simp
  from create_order'_failed [OF run] have s1: "s1 = s" by simp
  have "complete_checkout_post_payment_part X ci ls payment txn od s =
           (Inl (ValidationError (if e = InsufficientStock then INSUFFICIENT_STOCK
                                  else GIFT_CARD_NOT_APPLICABLE)),
            payment_refund_or_void payment
              (release_voucher_usage (od_voucher od) (od_user_email od) s))"
    using post_payment_no_action [OF assms(3), of X ci ls od s] assms(2,4) run s1 by simp
  moreover have "orders (payment_refund_or_void payment
              (release_voucher_usage (od_voucher od) (od_user_email od) s)) = orders s"
    by (simp add: payment_refund_or_void_def release_voucher_usage_def
        decrease_voucher_usage_def remove_voucher_usage_by_customer_def Let_def
        split: option.splits)
  moreover have "gateway_calls (payment_refund_or_void payment
              (release_voucher_usage (od_voucher od) (od_user_email od) s)) =
           gateway_calls s @
             (case payment of None \<Rightarrow> [] | Some p \<Rightarrow> [RefundOrVoid (payment_pk p)])"
    by (simp add: payment_refund_or_void_def release_voucher_usage_def
        decrease_voucher_usage_def remove_voucher_usage_by_customer_def Let_def
        split: option.splits)
  moreover have "voucher_used (payment_refund_or_void payment
              (release_voucher_usage (od_voucher od) (od_user_email od) s)) =
           (case od_voucher od of
              None \<Rightarrow> voucher_used s
            | Some v \<Rightarrow>
                if has_usage_limit v
                then (voucher_used s)(code v := voucher_used s (code v) - 1)
                else voucher_used s)"
    by (simp add: payment_refund_or_void_def release_voucher_usage_def
        decrease_voucher_usage_def remove_voucher_usage_by_customer_def Let_def
        split: option.splits)
  ultimately show ?thesis by simp
qed

lemma example_post_payment:
  "\<exists>order s'. complete_checkout_post_payment_part example_collab example_info [example_line]
      (Some example_payment) (Some example_txn) example_order_data example_db
        = (Inr (Some order, False, []), s')
      \<and> order_pk order = 0 \<and> amount (net (order_total order)) = 0
      \<and> order_mark_as_paid_strategy (order_channel order) = PAYMENT_FLOW"
  by (simp add: action_defs flow_defs ledger_defs example_defs Let_def)

theorem zero_total_auto_pay_witness:
  "\<exists>order s'. complete_checkout_post_payment_part example_collab example_info [example_line]
      (Some example_payment) (Some example_txn) example_order_data example_db
        = (Inr (Some order, False, []), s')
      \<and> amount (net (order_total order)) = 0
      \<and> order_mark_as_paid_strategy (order_channel order) = PAYMENT_FLOW
      \<and> paid_orders s' = [order_pk order]"
proof -
  from example_post_payment obtain order s' where
    run: "complete_checkout_post_payment_part example_collab example_info [example_line]
      (Some example_payment) (Some example_txn) example_order_data example_db
        = (Inr (Some order, False, []), s')"
    and z: "amount (net (order_total order)) = 0"
    and p: "order_mark_as_paid_strategy (order_channel order) = PAYMENT_FLOW"
    by blast
  from zero_total_auto_pay [OF run] z p
  have "paid_orders s' = [order_pk order]" by (simp add: example_db_def)
  with run z p show ?thesis
    by (intro exI [where x = order] exI [where x = s']) simp
qed

theorem post_payment_compensation_witness:
  "complete_checkout_post_payment_part (example_collab\<lparr>allocate_stocks := (\<lambda>_ _. False)\<rparr>)
      example_info [example_line] (Some example_payment) (Some example_txn)
      example_order_data (example_db\<lparr>voucher_used := (\<lambda>_. 1)\<rparr>)
     = (Inl (ValidationError INSUFFICIENT_STOCK),
        example_db\<lparr>voucher_used := (\<lambda>_. 1)(''SAVE'' := 0),
                   gateway_calls := [RefundOrVoid 11]\<rparr>)"
proof -
  have f: "fst (create_order' (example_collab\<lparr>allocate_stocks := (\<lambda>_ _. False)\<rparr>) example_info
          [example_line] example_order_data (example_db\<lparr>voucher_used := (\<lambda>_. 1)\<rparr>))
            = Inl InsufficientStock"
    by (simp add: action_defs flow_defs example_defs Let_def)
  have e: "InsufficientStock = InsufficientStock \<or> InsufficientStock = GiftCardNotApplicable"
    by simp
  have na: "\<not> (\<exists>p t. Some example_payment = Some p \<and> Some example_txn = Some t
                  \<and> action_required t)"
    by (simp add: example_txn_def)
  have nr: "\<not> is_refund_ongoing' (Some example_payment)"
    by (simp add: is_refund_ongoing'_def example_payment_def exists_rows_def)
  from post_payment_compensation [OF f e na nr] show ?thesis
    by (simp add: ledger_defs example_defs)
qed

subsection \<open>Rows left alone by the voucher ledger and the gateway\<close>


lemma rows_release [simp]: "rows (release_voucher_usage v e s) = rows s"
  by (simp add: rows_def release_voucher_usage_def decrease_voucher_usage_def
      remove_voucher_usage_by_customer_def Let_def split: option.splits)

lemma rows_refund [simp]: "rows (payment_refund_or_void p s) = rows s"
  by (simp add: rows_def payment_refund_or_void_def split: option.splits)

lemma rows_increase [simp]: "rows (increase_voucher_usage v s) = rows s"
  by (simp add: rows_def increase_voucher_usage_def)

lemma rows_add_customer:
  "add_voucher_usage_by_customer v e s = (r, s') \<Longrightarrow> rows s' = rows s"
  by (auto simp: rows_def add_voucher_usage_by_customer_def split: if_splits)

lemma rows_process_voucher:
  "process_voucher_data_for_order' X ci s = (r, s') \<Longrightarrow> rows s' = rows s"
  by (auto simp: process_voucher_data_for_order'_def Let_def elim!: bindE_E
      split: if_splits option.splits dest!: rows_add_customer)

lemma rows_prepare_order_data:
  "prepare_order_data' X ci ls pewt s = (r, s') \<Longrightarrow> rows s' = rows s"
  unfolding prepare_order_data'_def Let_def
  by (auto elim!: bindE_E catchE_E split: if_splits exn.splits dest!: rows_process_voucher)

lemma rows_get_order_data:
  "get_order_data' X ci ls s = (r, s') \<Longrightarrow> rows s' = rows s"
  unfolding get_order_data'_def
  by (auto elim!: catchE_E split: exn.splits dest!: rows_prepare_order_data)

lemma prepare_checkout'_state:
  "prepare_checkout' X ci url s = (r, s') \<Longrightarrow> s' = s"
  unfolding prepare_checkout'_def
  by (auto elim!: bindE_E split: if_splits option.splits)

lemma rows_pre_payment:
  "complete_checkout_pre_payment_part X ci ls url s = (r, s') \<Longrightarrow> rows s' = rows s"
  unfolding complete_checkout_pre_payment_part_def Let_def prepare_checkout_with_payment'_def
    refund_and_reraise_def
  by (auto elim!: bindE_E catchE_E split: if_splits option.splits exn.splits
      dest!: rows_get_order_data prepare_checkout'_state)

subsection \<open>Stock reservations\<close>

lemma variants_stocks_fold_dom:
  "dom (fold (\<lambda>stock' m. m(product_variant_id stock' \<mapsto> stock')) stocks m0) =
     dom m0 \<union> product_variant_id ` set stocks"
  by (induction stocks arbitrary: m0) auto

lemma variants_stocks_fold_key:
  assumes "\<And>k st. m0 k = Some st \<Longrightarrow> product_variant_id st = k"
    and "fold (\<lambda>stock' m. m(product_variant_id stock' \<mapsto> stock')) stocks m0 k = Some st"
  shows "product_variant_id st = k"
  using assms
proof (induction stocks arbitrary: m0)
  case Nil
  then show ?case by simp
next
  case (Cons x xs)
  show ?case
  proof (rule Cons.IH [of "m0(product_variant_id x \<mapsto> x)"])
    fix k' st'
    assume "(m0(product_variant_id x \<mapsto> x)) k' = Some st'"
    with Cons.prems(1) show "product_variant_id st' = k'"
      by (auto split: if_splits)
  next
    from Cons.prems(2)
    show "fold (\<lambda>stock' m. m(product_variant_id stock' \<mapsto> stock')) xs
            (m0(product_variant_id x \<mapsto> x)) k = Some st"
      by (simp del: fun_upd_apply)
  qed
qed

lemma variants_stocks_map_dom:
  "(variants_stocks_map stocks k \<noteq> None) = (k \<in> product_variant_id ` set stocks)"
proof -
  have "dom (variants_stocks_map stocks) = product_variant_id ` set stocks"
    by (simp add: variants_stocks_map_def variants_stocks_fold_dom)
  then show ?thesis by (auto simp: dom_def)
qed

lemma variants_stocks_map_key:
  "variants_stocks_map stocks k = Some st \<Longrightarrow> product_variant_id st = k"
  unfolding variants_stocks_map_def
  by (rule variants_stocks_fold_key [of Map.empty]) simp_all

lemma reserve_loop_lines:
  "map checkout_line (reserve_loop (variants_stocks_map stocks) clock d k ls) =
     map line (filter (has_stock_row stocks) ls)
   \<and> map quantity_reserved (reserve_loop (variants_stocks_map stocks) clock d k ls) =
     map (\<lambda>l. quantity (line l)) (filter (has_stock_row stocks) ls)
   \<and> map (\<lambda>r. product_variant_id (stock r))
        (reserve_loop (variants_stocks_map stocks) clock d k ls) =
     map (\<lambda>l. variant_id (variant l)) (filter (has_stock_row stocks) ls)"
proof (induction ls arbitrary: k)
  case Nil
  show ?case by simp
next
  case (Cons l ls)
  show ?case
  proof (cases "variants_stocks_map stocks (variant_id (variant l))")
    case None
    with variants_stocks_map_dom [of stocks "variant_id (variant l)"]
    have "\<not> has_stock_row stocks l" by (simp add: has_stock_row_def)
    with None Cons show ?thesis by simp
  next
    case (Some st)
    with variants_stocks_map_dom [of stocks "variant_id (variant l)"]
    have "has_stock_row stocks l" by (simp add: has_stock_row_def)
    with Some Cons variants_stocks_map_key [OF Some] show ?thesis by simp
  qed
qed

lemma reserve_loop_until:
  "map reserved_until (reserve_loop m clock d k ls) =
     map (\<lambda>i. clock i + d) [k ..< k + length (reserve_loop m clock d k ls)]"
proof (induction ls arbitrary: k)
  case Nil
  show ?case by simp
next
  case (Cons l ls)
  show ?case
  proof (cases "m (variant_id (variant l))")
    case None
    with Cons show ?thesis by simp
  next
    case (Some st)
    have "[k ..< k + Suc (length (reserve_loop m clock d (Suc k) ls))] =
            k # [Suc k ..< Suc k + length (reserve_loop m clock d (Suc k) ls)]"
      by (simp add: upt_rec)
    with Some Cons [of "Suc k"] show ?thesis by simp
  qed
qed

text \<open>
  C8, as the code has it. \<open>_reserve_stocks_without_availability_check\<close> never fails (it
  checks nothing) and creates one Reservation for every checkout line whose variant has a
  stock row in the query's answer, in the order of the lines and for no other line: the
  reservation holds the line, the line's quantity and a stock of the line's variant, and
  expires RESERVE_DURATION seconds after the clock reading taken when it is built. In the
  first locked transaction of \<open>complete_checkout_with_payment\<close> these rows are in the
  database when the transaction hands over to payment processing.
\<close>

theorem reservations_for_stocked_lines:
  "(\<exists>rs. reserve_stocks_without_availability_check' X ci ls s
            = (Inr rs, s\<lparr>reservations := reservations s @ rs\<rparr>)
        \<and> map checkout_line rs =
            map line (filter (has_stock_row
              (get_variants_stocks_for_country X ci (map variant ls))) ls)
        \<and> map quantity_reserved rs =
            map (\<lambda>l. quantity (line l)) (filter (has_stock_row
              (get_variants_stocks_for_country X ci (map variant ls))) ls)
        \<and> map (\<lambda>r. product_variant_id (stock r)) rs =
            map (\<lambda>l. variant_id (variant l)) (filter (has_stock_row
              (get_variants_stocks_for_country X ci (map variant ls))) ls)
        \<and> map reserved_until rs =
            map (\<lambda>k. now X k + RESERVE_DURATION X) [0 ..< length rs])
   \<and> (first_transaction X pk u url s0 = (Inr (Proceed (ci', payment, od)), s0')
       \<longrightarrow> (\<exists>co rs'. select_checkout_for_update pk s0 = Some co
              \<and> fst (reserve_stocks_without_availability_check' X ci'
                       (fetch_checkout_lines X co) s0) = Inr rs'
              \<and> reservations s0' = reservations s0 @ rs'))"
proof (intro conjI impI)
  let ?rs = "reserve_loop
      (variants_stocks_map (get_variants_stocks_for_country X ci (map variant ls)))
      (now X) (RESERVE_DURATION X) 0 ls"
  have run: "reserve_stocks_without_availability_check' X ci ls s
            = (Inr ?rs, s\<lparr>reservations := reservations s @ ?rs\<rparr>)"
    by (simp add: reserve_stocks_without_availability_check'_def Let_def)
  from run reserve_loop_lines [of "get_variants_stocks_for_country X ci (map variant ls)"
      "now X" "RESERVE_DURATION X" 0 ls]
    reserve_loop_until [of "variants_stocks_map
      (get_variants_stocks_for_country X ci (map variant ls))" "now X" "RESERVE_DURATION X" 0 ls]
  show "\<exists>rs. reserve_stocks_without_availability_check' X ci ls s
            = (Inr rs, s\<lparr>reservations := reservations s @ rs\<rparr>)
        \<and> map checkout_line rs =
            map line (filter (has_stock_row
              (get_variants_stocks_for_country X ci (map variant ls))) ls)
        \<and> map quantity_reserved rs =
            map (\<lambda>l. quantity (line l)) (filter (has_stock_row
              (get_variants_stocks_for_country X ci (map variant ls))) ls)
        \<and> map (\<lambda>r. product_variant_id (stock r)) rs =
            map (\<lambda>l. variant_id (variant l)) (filter (has_stock_row
              (get_variants_stocks_for_country X ci (map variant ls))) ls)
        \<and> map reserved_until rs =
            map (\<lambda>k. now X k + RESERVE_DURATION X) [0 ..< length rs]"
    by (intro exI [where x = ?rs]) simp
next
  assume a: "first_transaction X pk u url s0 = (Inr (Proceed (ci', payment, od)), s0')"
  show "\<exists>co rs'. select_checkout_for_update pk s0 = Some co
              \<and> fst (reserve_stocks_without_availability_check' X ci'
                       (fetch_checkout_lines X co) s0) = Inr rs'
              \<and> reservations s0' = reservations s0 @ rs'"
  proof (cases "select_checkout_for_update pk s0")
    case None
    with a show ?thesis
      by (simp add: first_transaction_def transaction_with_commit_on_errors_def)
  next
    case (Some co)
    with a show ?thesis
      unfolding first_transaction_def transaction_with_commit_on_errors_def Let_def
      by (auto elim!: bindE_E dest!: rows_pre_payment
          simp: reserve_stocks_without_availability_check'_def Let_def rows_def)
  qed
qed

text \<open>
  C8 as stated fails for a line whose variant has no stock row for the country and
  channel: the checkout has one line and no reservation is created.
\<close>

theorem reservation_for_every_line_counterexample:
  "reserve_stocks_without_availability_check'
      (example_collab\<lparr>get_variants_stocks_for_country := (\<lambda>_ _. [])\<rparr>)
      example_info [example_line] example_db
     = (Inr [], example_db)"
  by (simp add: reserve_stocks_without_availability_check'_def Let_def variants_stocks_map_def
      example_collab_def example_db_def)

theorem reservations_for_stocked_lines_witness:
  "\<exists>ci' payment od s0'.
      first_transaction example_collab ''t1'' None None example_db
        = (Inr (Proceed (ci', payment, od)), s0')
      \<and> reservations s0' =
          [\<lparr>quantity_reserved = 3, reserved_until = 1045,
            stock = \<lparr>stock_pk = 1, product_variant_id = 7\<rparr>,
            checkout_line = \<lparr>line_pk = 1, quantity = 3\<rparr>\<rparr>]"
proof -
  have "\<exists>ci' payment od s0'. first_transaction example_collab ''t1'' None None example_db
        = (Inr (Proceed (ci', payment, od)), s0')"
    by (simp add: action_defs flow_defs line_defs money_defs ledger_defs example_defs Let_def)
  then obtain ci' payment od s0' where
    run: "first_transaction example_collab ''t1'' None None example_db
        = (Inr (Proceed (ci', payment, od)), s0')" by blast
  from reservations_for_stocked_lines [where X = example_collab and pk = "''t1''"
      and u = None and url = None and ?s0.0 = example_db and ci' = ci' and payment = payment
      and od = od and s0' = s0' and ci = example_info and ls = "[example_line]"
      and s = example_db] run
  obtain co rs' where sel: "select_checkout_for_update ''t1'' example_db = Some co"
    and rs': "fst (reserve_stocks_without_availability_check' example_collab ci'
                       (fetch_checkout_lines example_collab co) example_db) = Inr rs'"
    and res: "reservations s0' = reservations example_db @ rs'"
    by blast
  from rs' have "rs' = [\<lparr>quantity_reserved = 3, reserved_until = 1045,
            stock = \<lparr>stock_pk = 1, product_variant_id = 7\<rparr>,
            checkout_line = \<lparr>line_pk = 1, quantity = 3\<rparr>\<rparr>]"
    by (simp add: reserve_stocks_without_availability_check'_def Let_def variants_stocks_map_def
        example_collab_def example_line_def)
  with res have "reservations s0' =
          [\<lparr>quantity_reserved = 3, reserved_until = 1045,
            stock = \<lparr>stock_pk = 1, product_variant_id = 7\<rparr>,
            checkout_line = \<lparr>line_pk = 1, quantity = 3\<rparr>\<rparr>]"
    by (simp add: example_db_def)
  with run show ?thesis by blast
qed

subsection \<open>The entry fork\<close>

text \<open>
  C2. \<open>complete_checkout\<close> takes the transaction flow exactly when the checkout has a
  payment transaction, or the channel allows unpaid orders, or the (recalculated) gross
  total is zero and the channel's strategy is transaction-flow; in every other case it
  takes the payment flow. A completion through the transaction flow returns with
  action-required False and no action data.
\<close>

theorem entry_fork:
  "(if payment_transactions (checkout ci) \<noteq> []
       \<or> allow_unpaid_orders (channel ci)
       \<or> (amount (gross (recalculated_total X ci ls)) = 0
           \<and> order_mark_as_paid_strategy (channel ci) = TRANSACTION_FLOW)
    then complete_checkout X ci ls u url s =
           (case complete_checkout_with_transaction X (fetch_checkout_data X ci ls) ls u url s of
              (Inl e, s') \<Rightarrow> (Inl e, s')
            | (Inr order, s') \<Rightarrow> (Inr (order, False, []), s'))
    else complete_checkout X ci ls u url s =
           complete_checkout_with_payment X (token (checkout ci)) u url s)
   \<and> ((payment_transactions (checkout ci) \<noteq> []
        \<or> allow_unpaid_orders (channel ci)
        \<or> (amount (gross (recalculated_total X ci ls)) = 0
            \<and> order_mark_as_paid_strategy (channel ci) = TRANSACTION_FLOW))
       \<and> complete_checkout X ci ls u url s = (Inr (order, ar, ad), s')
       \<longrightarrow> ar = False \<and> ad = [])"
  by (auto simp: complete_checkout_def Let_def fetch_checkout_data_def exists_rows_def
      bindE_def returnE_def split: prod.splits sum.splits)

theorem entry_fork_witness:
  "payment_transactions (checkout (example_info\<lparr>checkout :=
       example_checkout\<lparr>payment_transactions := [1], authorize_status := FULL\<rparr>\<rparr>)) \<noteq> []
   \<and> (\<exists>order s'. complete_checkout example_collab
          (example_info\<lparr>checkout :=
             example_checkout\<lparr>payment_transactions := [1], authorize_status := FULL\<rparr>\<rparr>)
          [example_line] None None example_db = (Inr (Some order, False, []), s'))
   \<and> complete_checkout example_collab example_info [example_line] None None example_db
       = complete_checkout_with_payment example_collab ''t1'' None None example_db"
proof -
  let ?ci = "example_info\<lparr>checkout :=
       example_checkout\<lparr>payment_transactions := [1], authorize_status := FULL\<rparr>\<rparr>"
  have run: "\<exists>order s'. complete_checkout_with_transaction example_collab
          (fetch_checkout_data example_collab ?ci [example_line])
          [example_line] None None example_db = (Inr (Some order), s')"
    by (simp add: action_defs flow_defs line_defs money_defs ledger_defs example_defs Let_def)
  have a: "payment_transactions (checkout ?ci) \<noteq> []" by simp
  from entry_fork [where ci = ?ci and X = example_collab and ls = "[example_line]"
      and u = None and url = None and s = example_db] a
  have "complete_checkout example_collab ?ci [example_line] None None example_db =
           (case complete_checkout_with_transaction example_collab
                   (fetch_checkout_data example_collab ?ci [example_line])
                   [example_line] None None example_db of
              (Inl e, s') \<Rightarrow> (Inl e, s')
            | (Inr order, s') \<Rightarrow> (Inr (order, False, []), s'))"
    by simp
  with run have b: "\<exists>order s'. complete_checkout example_collab ?ci [example_line] None None
                     example_db = (Inr (Some order, False, []), s')"
    by auto
  from entry_fork [where ci = example_info and X = example_collab and ls = "[example_line]"
      and u = None and url = None and s = example_db]
  have c: "complete_checkout example_collab example_info [example_line] None None example_db
       = complete_checkout_with_payment example_collab ''t1'' None None example_db"
    by (simp add: example_defs)
  from a b c show ?thesis by blast
qed

subsection \<open>One order per checkout token\<close>







lemma rows_rollback [simp]: "rows (rollback s s1) = rows s"
  by (simp add: rows_def rollback_def)

























subsection \<open>Voucher usage\<close>

lemma usage_release_increase [simp]:
  "usage_after_release v (usage_after_increase v f) = f"
  by (auto simp: usage_after_release_def usage_after_increase_def split: option.splits)

lemma voucher_used_release [simp]:
  "voucher_used (release_voucher_usage v e s) = usage_after_release v (voucher_used s)"
  by (simp add: release_voucher_usage_def decrease_voucher_usage_def
      remove_voucher_usage_by_customer_def usage_after_release_def Let_def
      split: option.splits)

lemma voucher_used_refund [simp]:
  "voucher_used (payment_refund_or_void p s) = voucher_used s"
  by (simp add: payment_refund_or_void_def split: option.splits)

lemma voucher_used_rollback [simp]: "voucher_used (rollback s s') = voucher_used s"
  by (simp add: rollback_def)

lemma add_voucher_usage_by_customer_used:
  "add_voucher_usage_by_customer v e s = (r, s') \<Longrightarrow>
     voucher_used s' = voucher_used s \<and> (r = Inr () \<or> r = Inl NotApplicable)"
  by (auto simp: add_voucher_usage_by_customer_def split: if_splits)

lemma increase_voucher_usage'_used:
  assumes "increase_voucher_usage' X ci s = (r, s')"
  shows "case r of
           Inl e \<Rightarrow> e = NotApplicable
         | Inr x \<Rightarrow> voucher_used s' =
             usage_after_increase (get_voucher_for_checkout_info X ci) (voucher_used s)"
  using assms
  by (auto simp: increase_voucher_usage'_def usage_after_increase_def
      increase_voucher_usage_def elim!: bindE_E
      split: option.splits if_splits dest!: add_voucher_usage_by_customer_used)

lemma create_order_from_checkout'_used:
  "create_order_from_checkout' X ci ls s = (r, s') \<Longrightarrow> voucher_used s' = voucher_used s"
  unfolding create_order_from_checkout'_def create_order_lines_from_checkout_lines'_def
    handle_allocations_of_order_lines'_def Let_def
  by (auto elim!: bindE_E split: if_splits
      simp: insert_order_def handle_checkout_discount'_def bulk_create_lines_def)

lemma create_order_from_checkout_used:
  assumes "voucher ci = Some v0"
    and run: "create_order_from_checkout X ci u d s = (r, s')"
  shows "(r = Inl NotApplicable \<and> voucher_used s' = voucher_used s)
       \<or> voucher_used s' =
           usage_after_increase (get_voucher_for_checkout_info X ci) (voucher_used s)"
proof -
  let ?blk = "atomic (\<lambda>s.
           (let checkout_pk = token (checkout ci)
            in case select_checkout_for_update checkout_pk s of
                 None \<Rightarrow> (Inr (get_by_checkout_token checkout_pk s), s)
               | Some checkout' \<Rightarrow>
                   (let checkout_lines = fetch_checkout_lines X checkout';
                        checkout_info1 =
                          assign_checkout_user X u (fetch_checkout_info X checkout' (voucher ci))
                    in catchE
                         (bindE (create_order_from_checkout' X checkout_info1 checkout_lines)
                            (\<lambda>order.
                          bindE (if d
                                 then liftS (delete_checkout (checkout checkout_info1))
                                 else returnE ()) (\<lambda>_.
                          returnE (Some order))))
                         (\<lambda>e. case e of
                                 InsufficientStock \<Rightarrow>
                                   bindE (liftS (release_voucher_usage (voucher checkout_info1)
                                            (checkout_get_customer_email (checkout checkout_info1))))
                                     (\<lambda>_. raiseE e)
                               | GiftCardNotApplicable \<Rightarrow>
                                   bindE (liftS (release_voucher_usage (voucher checkout_info1)
                                            (checkout_get_customer_email (checkout checkout_info1))))
                                     (\<lambda>_. raiseE e)
                               | _ \<Rightarrow> raiseE e) s)))"
  from run assms(1) obtain r1 s1 where
    step: "atomic (increase_voucher_usage' X ci) s = (r1, s1)"
    and rest: "(\<exists>e. r1 = Inl e \<and> r = Inl e \<and> s' = s1) \<or> (r1 = Inr () \<and> ?blk s1 = (r, s'))"
    unfolding create_order_from_checkout_def Let_def
    by (auto elim!: bindE_E)
  from rest show ?thesis
  proof (elim disjE exE conjE)
    fix e
    assume "r1 = Inl e" "r = Inl e" "s' = s1"
    with step show ?thesis
      by (auto elim!: atomic_E dest!: increase_voucher_usage'_used)
  next
    assume r1: "r1 = Inr ()" and blk: "?blk s1 = (r, s')"
    from step r1
    have u1: "voucher_used s1 =
               usage_after_increase (get_voucher_for_checkout_info X ci) (voucher_used s)"
      by (auto elim!: atomic_E dest!: increase_voucher_usage'_used)
    from blk have "voucher_used s' = voucher_used s1"
    proof (elim atomic_E, goal_cases)
      case (1 e s2)
      then show ?case by simp
    next
      case (2 v)
      then show ?case
        by (auto simp: Let_def delete_checkout_def split: option.splits if_splits exn.splits
            elim!: catchE_E bindE_E dest!: create_order_from_checkout'_used)
    qed
    with u1 show ?thesis by simp
  qed
qed

text \<open>
  C3 does not hold on the transaction flow. \<open>create_order_from_checkout\<close> increments the
  usage of a usage-limited voucher in a transaction of its own; the release on
  InsufficientStock or GiftCardNotApplicable is written inside the second
  \<open>transaction.atomic()\<close> block, which the re-raised exception rolls back. When the
  attempt fails with InsufficientStock or GiftCardNotApplicable, the usage count ends one
  above its value before the attempt.
\<close>

theorem transaction_flow_keeps_voucher_increment:
  assumes "voucher ci = Some v" "get_voucher_for_checkout_info X ci = Some v"
    and "has_usage_limit v"
    and "create_order_from_checkout X ci u d s = (Inl e, s')"
    and "e = InsufficientStock \<or> e = GiftCardNotApplicable"
  shows "voucher_used s' (code v) = voucher_used s (code v) + 1"
  using create_order_from_checkout_used [OF assms(1,4)] assms(2,3,5)
  by (auto simp: usage_after_increase_def)

theorem transaction_flow_keeps_voucher_increment_witness:
  "complete_checkout (example_collab\<lparr>allocate_stocks := (\<lambda>_ _. False)\<rparr>)
      example_info_authorized [example_line] None None example_db_authorized
     = (Inl (ValidationError INSUFFICIENT_STOCK),
        example_db_authorized\<lparr>voucher_used := (\<lambda>_. 0)(''SAVE'' := 1)\<rparr>)
   \<and> fst (create_order_from_checkout (example_collab\<lparr>allocate_stocks := (\<lambda>_ _. False)\<rparr>)
            example_info_authorized None True example_db_authorized) = Inl InsufficientStock
   \<and> voucher_used example_db_authorized ''SAVE'' = 0
   \<and> voucher_used (snd (create_order_from_checkout
          (example_collab\<lparr>allocate_stocks := (\<lambda>_ _. False)\<rparr>)
          example_info_authorized None True example_db_authorized)) ''SAVE'' = 1"
proof -
  let ?X = "example_collab\<lparr>allocate_stocks := (\<lambda>_ _. False)\<rparr>"
  have 1: "complete_checkout ?X example_info_authorized [example_line] None None
             example_db_authorized
     = (Inl (ValidationError INSUFFICIENT_STOCK),
        example_db_authorized\<lparr>voucher_used := (\<lambda>_. 0)(''SAVE'' := 1)\<rparr>)"
    by (simp add: action_defs flow_defs line_defs money_defs ledger_defs example_defs
        example_checkout_authorized_def example_info_authorized_def example_db_authorized_def
        Let_def)
  have 2: "fst (create_order_from_checkout ?X example_info_authorized None True
             example_db_authorized) = Inl InsufficientStock"
    by (simp add: action_defs flow_defs line_defs money_defs ledger_defs example_defs
        example_checkout_authorized_def example_info_authorized_def example_db_authorized_def
        Let_def)
  have 3: "voucher_used example_db_authorized ''SAVE'' = 0"
    by (simp add: example_db_authorized_def example_db_def)
  have v: "voucher example_info_authorized = Some example_voucher"
    "get_voucher_for_checkout_info ?X example_info_authorized = Some example_voucher"
    "has_usage_limit example_voucher"
    by (simp_all add: example_info_authorized_def example_info_def example_collab_def
        has_usage_limit_def example_voucher_def)
  from 2
  have run: "create_order_from_checkout ?X example_info_authorized None True
               example_db_authorized
             = (Inl InsufficientStock,
                snd (create_order_from_checkout ?X example_info_authorized None True
                       example_db_authorized))"
    by (simp add: prod_eq_iff)
  from transaction_flow_keeps_voucher_increment [OF v run] 3
  have 4: "voucher_used (snd (create_order_from_checkout ?X example_info_authorized None True
             example_db_authorized)) ''SAVE'' = 1"
    by (simp add: example_voucher_def)
  from 1 2 3 4 show ?thesis by simp
qed

text \<open>
  The payment flow, for comparison: its blocks commit on errors, and every failure other
  than an inactive payment, a voucher found not applicable (and a currency mismatch in
  the money arithmetic), as well as an action-required return, leaves the usage counters
  as they were before the attempt; a return without action required leaves one increase.
\<close>

lemma process_voucher_data_for_order'_used:
  assumes "process_voucher_data_for_order' X ci s = (r, s')"
  shows "case r of
           Inl e \<Rightarrow> e = NotApplicable
         | Inr v \<Rightarrow> v = get_voucher_for_checkout_info X ci
                    \<and> voucher_used s' = usage_after_increase v (voucher_used s)"
  using assms
  by (auto simp: process_voucher_data_for_order'_def Let_def usage_after_increase_def
      increase_voucher_usage_def elim!: bindE_E
      split: if_splits option.splits dest!: add_voucher_usage_by_customer_used)

lemma total_price_left_of_error:
  "total_price_left_of a b m = Inl e \<Longrightarrow> e = ValueError"
  by (auto simp: total_price_left_of_def taxed_money_add_def taxed_money_sub_money_def
      taxed_money_sub_def money_add_def money_sub_def split: sum.splits if_splits)

lemma prepare_order_data'_used:
  assumes "prepare_order_data' X ci ls pewt s = (r, s')"
  shows "case r of
           Inl e \<Rightarrow> e \<noteq> ValueError \<and> e \<noteq> NotApplicable
                    \<longrightarrow> voucher_used s' = voucher_used s
         | Inr od \<Rightarrow> od_voucher od = get_voucher_for_checkout_info X ci
                     \<and> voucher_used s' = usage_after_increase (od_voucher od) (voucher_used s)"
  using assms unfolding prepare_order_data'_def Let_def
  by (auto elim!: bindE_E catchE_E split: if_splits exn.splits
      dest!: process_voucher_data_for_order'_used dest: total_price_left_of_error)

lemma get_order_data'_used:
  assumes "get_order_data' X ci ls s = (r, s')"
  shows "case r of
           Inl e \<Rightarrow> e \<noteq> ValueError \<and> e \<noteq> ValidationError VOUCHER_NOT_APPLICABLE
                    \<longrightarrow> voucher_used s' = voucher_used s
         | Inr od \<Rightarrow> od_voucher od = get_voucher_for_checkout_info X ci
                     \<and> voucher_used s' = usage_after_increase (od_voucher od) (voucher_used s)"
  using assms unfolding get_order_data'_def
  by (auto elim!: catchE_E split: exn.splits dest!: prepare_order_data'_used)

lemma pre_payment_used:
  assumes "complete_checkout_pre_payment_part X ci ls url s = (r, s')"
  shows "case r of
           Inl e \<Rightarrow> e \<noteq> ValueError \<and> e \<noteq> ValidationError VOUCHER_NOT_APPLICABLE
                    \<longrightarrow> voucher_used s' = voucher_used s
         | Inr (payment, od) \<Rightarrow>
             od_voucher od = get_voucher_for_checkout_info X (fetch_checkout_data X ci ls)
             \<and> voucher_used s' = usage_after_increase (od_voucher od) (voucher_used s)"
  using assms
  unfolding complete_checkout_pre_payment_part_def Let_def prepare_checkout_with_payment'_def
    refund_and_reraise_def
  by (auto elim!: bindE_E catchE_E split: if_splits option.splits exn.splits
      dest!: get_order_data'_used prepare_checkout'_state)

lemma first_transaction_used:
  assumes "select_checkout_for_update pk s = Some co"
    and "first_transaction X pk u url s = (r, s')"
  shows "case r of
           Inl e \<Rightarrow> e \<noteq> ValueError \<and> e \<noteq> ValidationError VOUCHER_NOT_APPLICABLE
                    \<longrightarrow> voucher_used s' = voucher_used s
         | Inr (Return x) \<Rightarrow> False
         | Inr (Proceed (ci, payment, od)) \<Rightarrow>
             od_voucher od = get_voucher_for_checkout_info X
               (fetch_checkout_data X (assign_checkout_user X u (fetch_checkout_info X co None))
                  (fetch_checkout_lines X co))
             \<and> voucher_used s' = usage_after_increase (od_voucher od) (voucher_used s)"
  using assms
  unfolding first_transaction_def transaction_with_commit_on_errors_def Let_def
  by (auto elim!: bindE_E dest!: pre_payment_used
      simp: reserve_stocks_without_availability_check'_def Let_def)

lemma process_payment'_used:
  assumes "process_payment' X p od s = (r, s')"
  shows "case r of
           Inl e \<Rightarrow> e = ValidationError PAYMENT_ERROR
                    \<and> voucher_used s' = usage_after_release (od_voucher od) (voucher_used s)
         | Inr x \<Rightarrow> voucher_used s' = voucher_used s"
  using assms unfolding process_payment'_def call_gateway_def
  by (auto elim!: bindE_E catchE_E split: if_splits exn.splits option.splits)

lemma unlocked_payment_used:
  assumes "unlocked_payment X payment od s = (r, s')"
  shows "case r of
           Inl e \<Rightarrow> (e = ValidationError PAYMENT_ERROR
                     \<and> voucher_used s' = usage_after_release (od_voucher od) (voucher_used s))
                    \<or> (e = ValidationError INACTIVE_PAYMENT
                     \<and> voucher_used s' = voucher_used s)
         | Inr x \<Rightarrow> voucher_used s' = voucher_used s"
  using assms unfolding unlocked_payment_def Let_def
  by (cases payment)
     (auto elim!: bindE_E split: if_splits prod.splits dest!: process_payment'_used)

lemma voucher_used_after_create [simp]:
  "voucher_used (bulk_create_lines pk ols (handle_checkout_discount' order co (insert_order order s)))
     = voucher_used s"
  by (simp add: bulk_create_lines_def handle_checkout_discount'_def insert_order_def)

lemma post_payment_used:
  assumes "complete_checkout_post_payment_part X ci ls payment txn od s = (r, s')"
  shows "case r of
           Inl e \<Rightarrow> e \<noteq> ValidationError INACTIVE_PAYMENT
                    \<and> voucher_used s' = usage_after_release (od_voucher od) (voucher_used s)
         | Inr (order, ar, ad) \<Rightarrow>
             voucher_used s' =
               (if ar then usage_after_release (od_voucher od) (voucher_used s)
                else voucher_used s)"
proof (cases "\<exists>p t. payment = Some p \<and> txn = Some t \<and> action_required t")
  case True
  then obtain p t where "payment = Some p" "txn = Some t" "action_required t" by blast
  from post_payment_action_required [OF this, of X ci ls od s] assms
  show ?thesis by auto
next
  case False
  note eq = post_payment_no_action [OF False, of X ci ls od s]
  show ?thesis
  proof (cases "is_refund_ongoing' payment")
    case True
    with eq assms show ?thesis by auto
  next
    case ongoing: False
    obtain r1 s1 where run: "create_order' X ci ls od s = (r1, s1)"
      by (cases "create_order' X ci ls od s") blast
    show ?thesis
    proof (cases r1)
      case (Inl e)
      with run create_order'_failed [of X ci ls od s e s1]
      have "s1 = s" "e = InsufficientStock \<or> e = GiftCardNotApplicable" by simp_all
      with eq assms ongoing run Inl show ?thesis by auto
    next
      case (Inr order)
      with run have ok: "create_order' X ci ls od s = (Inr order, s1)" by simp
      from create_order'_ok [OF ok] have "voucher_used s1 = voucher_used s" by auto
      with eq assms ongoing run Inr show ?thesis
        by (auto simp: mark_order_as_paid_with_payment_def delete_checkout_def)
    qed
  qed
qed

lemma second_transaction_used:
  assumes "second_transaction X ci payment txn od s = (r, s')"
  shows "case r of
           Inl e \<Rightarrow> e \<noteq> ValidationError INACTIVE_PAYMENT
                    \<and> voucher_used s' = usage_after_release (od_voucher od) (voucher_used s)
         | Inr (order, ar, ad) \<Rightarrow>
             voucher_used s' =
               (if ar then usage_after_release (od_voucher od) (voucher_used s)
                else voucher_used s)"
proof (cases "select_checkout_for_update (token (checkout ci)) s")
  case None
  with assms show ?thesis
    by (auto simp: second_transaction_def transaction_with_commit_on_errors_def)
next
  case (Some co)
  with assms post_payment_used show ?thesis
    by (simp add: second_transaction_def transaction_with_commit_on_errors_def Let_def)
qed

lemma payment_flow_voucher_usage:
  assumes sel: "select_checkout_for_update pk s = Some co"
    and others: "\<And>s0. voucher_used (other_workers X s0) = voucher_used s0"
    and run: "complete_checkout_with_payment X pk u url s = (r, s')"
  shows "case r of
           Inl e \<Rightarrow> e \<noteq> ValidationError INACTIVE_PAYMENT \<and> e \<noteq> ValueError
                    \<and> e \<noteq> ValidationError VOUCHER_NOT_APPLICABLE
                    \<longrightarrow> voucher_used s' = voucher_used s
         | Inr (order, ar, ad) \<Rightarrow>
             voucher_used s' =
               (if ar then voucher_used s
                else usage_after_increase
                       (get_voucher_for_checkout_info X
                          (fetch_checkout_data X
                             (assign_checkout_user X u (fetch_checkout_info X co None))
                             (fetch_checkout_lines X co)))
                       (voucher_used s))"
  using run unfolding complete_checkout_with_payment_def
proof (elim bindE_E, goal_cases)
  case (1 e)
  from first_transaction_used [OF sel 1(1)] 1(2) show ?case by simp
next
  case (2 v s1)
  from first_transaction_used [OF sel 2(1)] obtain ci payment od where
    v: "v = Proceed (ci, payment, od)"
    and odv: "od_voucher od = get_voucher_for_checkout_info X
               (fetch_checkout_data X (assign_checkout_user X u (fetch_checkout_info X co None))
                  (fetch_checkout_lines X co))"
    and u1: "voucher_used s1 = usage_after_increase (od_voucher od) (voucher_used s)"
    by (cases v) (auto split: prod.splits)
  from 2(2) v
  have "bindE (unlocked_payment X payment od)
            (\<lambda>(txn, payment'). second_transaction X ci payment' txn od)
            (other_workers X s1) = (r, s')"
    by (simp add: bindE_def liftS_def)
  then show ?case
  proof (elim bindE_E, goal_cases)
    case (1 e)
    from unlocked_payment_used [OF 1(1)] 1(2) u1 others [of s1] show ?case by auto
  next
    case (2 w s2)
    from unlocked_payment_used [OF 2(1)] others [of s1] u1
    have u2: "voucher_used s2 = usage_after_increase (od_voucher od) (voucher_used s)"
      by simp
    obtain txn payment' where w: "w = (txn, payment')" by (cases w) auto
    with 2(2) have "second_transaction X ci payment' txn od s2 = (r, s')" by simp
    from second_transaction_used [OF this] u2 odv show ?case
      by (auto split: sum.splits prod.splits)
  qed
qed

text \<open>
  The one failure of the payment flow that keeps the increase: a payment found inactive
  after the gateway call is refunded, and the voucher usage is not released.
\<close>

lemma inactive_payment_keeps_voucher_increment:
  "complete_checkout
      (example_collab\<lparr>refresh_from_db := (\<lambda>p. p\<lparr>payment_is_active := False\<rparr>)\<rparr>)
      example_info [example_line] None None example_db
     = (Inl (ValidationError INACTIVE_PAYMENT),
        example_db\<lparr>voucher_used := (\<lambda>_. 0)(''SAVE'' := 1),
                   reservations :=
                     [\<lparr>quantity_reserved = 3, reserved_until = 1045,
                       stock = \<lparr>stock_pk = 1, product_variant_id = 7\<rparr>,
                       checkout_line = \<lparr>line_pk = 1, quantity = 3\<rparr>\<rparr>],
                   gateway_calls := [ProcessPayment 11, RefundOrVoid 11]\<rparr>)"
  by (simp add: action_defs flow_defs line_defs money_defs ledger_defs example_defs Let_def)

text \<open>
  A second one: \<open>_process_voucher_data_for_order\<close> takes the usage of a usage-limited
  voucher up before it registers the customer's use, and the block commits on the
  NotApplicable that the registration raises for a use registered already.
\<close>

lemma refused_customer_keeps_voucher_increment:
  "complete_checkout (example_collab\<lparr>load_checkout_info := (\<lambda>_ _. example_info_once)\<rparr>)
      example_info_once [example_line] None None example_db_once
     = (Inl (ValidationError VOUCHER_NOT_APPLICABLE),
        example_db_once\<lparr>voucher_used := (\<lambda>_. 0)(''SAVE'' := 1),
                        gateway_calls := [RefundOrVoid 11]\<rparr>)"
  by (simp add: action_defs flow_defs line_defs money_defs ledger_defs example_defs
      example_info_once_def example_voucher_once_def example_db_once_def Let_def)

end
